theory Spec2Isabelle
  imports Main "HOL-Library.Sublist"
begin

section \<open>Strings\<close>

text \<open>
  JavaScript strings are sequences of UTF-16 code units; they are modelled as HOL strings,
  so every code unit is taken to be below 256 (the Latin-1 range). The character classes
  and case mappings below are the JavaScript ones restricted to that range.
\<close>

definition isSpace :: "char \<Rightarrow> bool" where
  \<comment> \<open>the regular-expression class \<open>\s\<close>: TAB, LF, VT, FF, CR, SPACE, NBSP\<close>
  "isSpace c = (of_char c \<in> {9, 10, 11, 12, 13, 32, 160 :: nat})"

definition isWordChar :: "char \<Rightarrow> bool" where
  \<comment> \<open>the regular-expression class \<open>\w\<close>: letters, digits and underscore\<close>
  "isWordChar c =
     (let n = (of_char c :: nat)
      in (48 \<le> n \<and> n \<le> 57) \<or> (65 \<le> n \<and> n \<le> 90) \<or> n = 95 \<or> (97 \<le> n \<and> n \<le> 122))"

definition toLowerChar :: "char \<Rightarrow> char" where
  "toLowerChar c =
     (let n = (of_char c :: nat)
      in if (65 \<le> n \<and> n \<le> 90) \<or> (192 \<le> n \<and> n \<le> 222 \<and> n \<noteq> 215)
         then char_of (n + 32) else c)"

definition toLowerCase :: "string \<Rightarrow> string" where
  "toLowerCase s = map toLowerChar s"

definition toUpperChar :: "char \<Rightarrow> char" where
  "toUpperChar c =
     (let n = (of_char c :: nat)
      in if (97 \<le> n \<and> n \<le> 122) \<or> (224 \<le> n \<and> n \<le> 254 \<and> n \<noteq> 247)
         then char_of (n - 32) else c)"

definition stringIncludes :: "string \<Rightarrow> string \<Rightarrow> bool" where
  \<comment> \<open>\<open>hay.includes(needle)\<close>\<close>
  "stringIncludes hay needle = sublist needle hay"

definition endsWith :: "string \<Rightarrow> string \<Rightarrow> bool" where
  \<comment> \<open>\<open>s.endsWith(ext)\<close>\<close>
  "endsWith s ext = suffix ext s"

definition truthy :: "string option \<Rightarrow> bool" where
  \<comment> \<open>an absent property (\<open>undefined\<close>) and the empty string are falsy\<close>
  "truthy v = (case v of None \<Rightarrow> False | Some s \<Rightarrow> s \<noteq> [])"

definition orElse :: "string option \<Rightarrow> string \<Rightarrow> string" where
  \<comment> \<open>\<open>v || d\<close> on an optional string\<close>
  "orElse v d = (case v of None \<Rightarrow> d | Some s \<Rightarrow> if s = [] then d else s)"

fun joinLines :: "string list \<Rightarrow> string" where
  \<comment> \<open>the lines of a text, separated by LF\<close>
  "joinLines [] = []"
| "joinLines [l] = l"
| "joinLines (l # ls) = l @ CHR 0x0A # joinLines ls"

fun linesOf :: "string \<Rightarrow> string list" where
  \<comment> \<open>the inverse reading: a text split at every LF\<close>
  "linesOf [] = [[]]"
| "linesOf (c # cs) =
     (if c = CHR 0x0A then [] # linesOf cs
      else (case linesOf cs of [] \<Rightarrow> [[c]] | l # ls \<Rightarrow> (c # l) # ls))"

section \<open>Template Selector\<close>

subsection \<open>Per-method request bodies (analyzer.ts)\<close>

definition generateApiTestForMethod :: "string \<Rightarrow> string \<Rightarrow> string" where
  "generateApiTestForMethod method path =
    (if method = ''get'' then
       ''const response = await axios.get(`${baseUrl}'' @ path @ ''`);\<newline>'' @
       ''    \<newline>'' @
       ''    expect(response.status).toBe(200);\<newline>'' @
       ''    expect(response.data).toBeDefined();''
     else if method = ''post'' then
       ''const payload = {\<newline>'' @
       ''      // Add appropriate request body\<newline>'' @
       ''      name: 'Test Name',\<newline>'' @
       ''      email: 'test@example.com'\<newline>'' @
       ''    };\<newline>'' @
       ''    \<newline>'' @
       ''    const response = await axios.post(`${baseUrl}'' @ path @ ''`, payload);\<newline>'' @
       ''    \<newline>'' @
       ''    expect(response.status).toBe(201); // or 200 depending on your API\<newline>'' @
       ''    expect(response.data).toBeDefined();''
     else if method = ''put'' then
       ''const payload = {\<newline>'' @
       ''      // Add appropriate request body\<newline>'' @
       ''      id: 1,\<newline>'' @
       ''      name: 'Updated Name',\<newline>'' @
       ''      email: 'updated@example.com'\<newline>'' @
       ''    };\<newline>'' @
       ''    \<newline>'' @
       ''    const response = await axios.put(`${baseUrl}'' @ path @ ''`, payload);\<newline>'' @
       ''    \<newline>'' @
       ''    expect(response.status).toBe(200);\<newline>'' @
       ''    expect(response.data).toBeDefined();''
     else if method = ''delete'' then
       ''const response = await axios.delete(`${baseUrl}'' @ path @ ''`);\<newline>'' @
       ''    \<newline>'' @
       ''    expect(response.status).toBe(200); // or 204 for No Content\<newline>'' @
       ''    expect(response.data).toBeDefined();''
     else if method = ''patch'' then
       ''const payload = {\<newline>'' @
       ''      // Add partial data to update\<newline>'' @
       ''      name: 'Patched Name'\<newline>'' @
       ''    };\<newline>'' @
       ''    \<newline>'' @
       ''    const response = await axios.patch(`${baseUrl}'' @ path @ ''`, payload);\<newline>'' @
       ''    \<newline>'' @
       ''    expect(response.status).toBe(200);\<newline>'' @
       ''    expect(response.data).toBeDefined();''
     else
       ''const response = await axios.get(`${baseUrl}'' @ path @ ''`);\<newline>'' @
       ''    \<newline>'' @
       ''    expect(response.status).toBe(200);\<newline>'' @
       ''    expect(response.data).toBeDefined();'')"

definition generateApiErrorTestForMethod :: "string \<Rightarrow> string \<Rightarrow> string" where
  "generateApiErrorTestForMethod method path =
    (if method = ''get'' then
       ''await axios.get(`${baseUrl}'' @ path @ ''?invalid=true`);''
     else if method = ''post'' then
       ''await axios.post(`${baseUrl}'' @ path @ ''`, {\<newline>'' @
       ''        // Send invalid data\<newline>'' @
       ''        invalid_field: true\<newline>'' @
       ''      });''
     else if method = ''put'' then
       ''await axios.put(`${baseUrl}'' @ path @ ''`, {\<newline>'' @
       ''        // Send invalid data\<newline>'' @
       ''        invalid_field: true\<newline>'' @
       ''      });''
     else if method = ''delete'' then
       ''await axios.delete(`${baseUrl}'' @ path @ ''/999999`); // Non-existent ID''
     else if method = ''patch'' then
       ''await axios.patch(`${baseUrl}'' @ path @ ''`, {\<newline>'' @
       ''        // Send invalid data\<newline>'' @
       ''        invalid_field: true\<newline>'' @
       ''      });''
     else
       ''await axios.get(`${baseUrl}'' @ path @ ''/invalid`);'')"

definition generateGenericUITest :: "string \<Rightarrow> string" where
  "generateGenericUITest testName =
     ''import { test, expect } from '@playwright/test';\<newline>'' @
     ''\<newline>'' @
     ''test.describe('' @ [CHR 0x27] @ testName @ [CHR 0x27] @ '', () => {\<newline>'' @
     ''  test.beforeEach(async ({ page }) => {\<newline>'' @
     ''    await page.goto('/');\<newline>'' @
     ''  });\<newline>'' @
     ''  \<newline>'' @
     ''  test('should display the correct title', async ({ page }) => {\<newline>'' @
     ''    await expect(page).toHaveTitle(/Expected Title/);\<newline>'' @
     ''  });\<newline>'' @
     ''  \<newline>'' @
     ''  test('should allow basic interaction', async ({ page }) => {\<newline>'' @
     ''    // Replace with appropriate selector for your application\<newline>'' @
     ''    const button = page.locator('button:visible').first();\<newline>'' @
     ''    await button.click();\<newline>'' @
     ''    \<newline>'' @
     ''    // Add assertions based on expected behavior after clicking\<newline>'' @
     ''  });\<newline>'' @
     ''  \<newline>'' @
     ''  test('should navigate correctly', async ({ page }) => {\<newline>'' @
     ''    // Find a navigation element (like a menu item or link)\<newline>'' @
     ''    const navLink = page.locator('nav a').first();\<newline>'' @
     ''    await navLink.click();\<newline>'' @
     ''    \<newline>'' @
     ''    // Verify navigation worked\<newline>'' @
     ''    await expect(page).not.toHaveURL('/');\<newline>'' @
     ''  });\<newline>'' @
     ''});''"

subsection \<open>The scan result and the selection\<close>

record endpoint =
  ep_method :: string
  ep_path :: string
  ep_file :: "string option"

record component =
  comp_name :: string
  comp_file :: string

record route =
  route_path :: string
  route_file :: string

record socketImplementation =
  impl_file :: string
  impl_url :: "string option"

record appInfo =
  endpoints :: "endpoint list"
  components :: "component list"
  routes :: "route list"
  hasForms :: bool
  hasAuthentication :: bool
  hasWebSockets :: bool
  socketImplementations :: "socketImplementation list"
  selectedEndpoint :: "endpoint option"
  testTarget :: "string option"
  selectedComponent :: "component option"
  selectedRoute :: "route option"
  formPath :: "string option"
  testUrl :: "string option"
  socketUrl :: "string option"

subsection \<open>Templates of generateTestContent\<close>

definition replaceColons :: "string \<Rightarrow> string" where
  \<comment> \<open>\<open>route.replace(/:/g, '[^/]+')\<close>\<close>
  "replaceColons s = concat (map (\<lambda>c. if c = CHR '':'' then ''[^/]+'' else [c]) s)"

definition apiEndpointTemplate :: "string \<Rightarrow> string \<Rightarrow> string \<Rightarrow> string" where
  "apiEndpointTemplate testName method path =
     ''import { test, expect } from '@playwright/test';\<newline>'' @
     ''import axios from 'axios';\<newline>'' @
     ''\<newline>'' @
     ''test.describe('' @ [CHR 0x27] @ testName @ [CHR 0x27] @ '', () => {\<newline>'' @
     ''  const baseUrl = process.env.API_URL || 'http://localhost:3000';\<newline>'' @
     ''  \<newline>'' @
     ''  test('should successfully '' @ method @ '' to '' @ path @ [CHR 0x27] @
     '', async () => {\<newline>'' @
     ''    '' @ generateApiTestForMethod method path @ ''\<newline>'' @
     ''  });\<newline>'' @
     ''  \<newline>'' @
     ''  test('should handle errors correctly', async () => {\<newline>'' @
     ''    try {\<newline>'' @
     ''      // Simulate an error condition (e.g., invalid parameters, unauthorized)\<newline>'' @
     ''      '' @ generateApiErrorTestForMethod method path @ ''\<newline>'' @
     ''      // If we get here, the request was successful when it should fail\<newline>'' @
     ''      expect(false).toBe(true);\<newline>'' @
     ''    } catch (error: any) {\<newline>'' @
     ''      expect(error.response.status).toBe(400); // Adjust expected error code as needed\<newline>'' @
     ''    }\<newline>'' @
     ''  });\<newline>'' @
     ''});''"

definition apiGenericTemplate :: "string \<Rightarrow> string" where
  "apiGenericTemplate testName =
     ''import { test, expect } from '@playwright/test';\<newline>'' @
     ''import axios from 'axios';\<newline>'' @
     ''\<newline>'' @
     ''test.describe('' @ [CHR 0x27] @ testName @ [CHR 0x27] @ '', () => {\<newline>'' @
     ''  const baseUrl = process.env.API_URL || 'http://localhost:3000/api';\<newline>'' @
     ''  \<newline>'' @
     ''  test('should return successful response', async () => {\<newline>'' @
     ''    const response = await axios.get(`${baseUrl}/endpoint`);\<newline>'' @
     ''    \<newline>'' @
     ''    expect(response.status).toBe(200);\<newline>'' @
     ''    expect(response.data).toBeDefined();\<newline>'' @
     ''  });\<newline>'' @
     ''  \<newline>'' @
     ''  test('should handle errors correctly', async () => {\<newline>'' @
     ''    try {\<newline>'' @
     ''      await axios.get(`${baseUrl}/invalid-endpoint`);\<newline>'' @
     ''      // If we get here, the request was successful when it should fail\<newline>'' @
     ''      expect(false).toBe(true);\<newline>'' @
     ''    } catch (error: any) {\<newline>'' @
     ''      expect(error.response.status).toBe(404);\<newline>'' @
     ''    }\<newline>'' @
     ''  });\<newline>'' @
     ''});''"

definition routeTemplate :: "string \<Rightarrow> string \<Rightarrow> string" where
  "routeTemplate testName route =
     ''import { test, expect } from '@playwright/test';\<newline>'' @
     ''\<newline>'' @
     ''test.describe('' @ [CHR 0x27] @ testName @ '' - '' @ route @ [CHR 0x27] @
     '', () => {\<newline>'' @
     ''  test.beforeEach(async ({ page }) => {\<newline>'' @
     ''    await page.goto('' @ [CHR 0x27] @ route @ [CHR 0x27] @ '');\<newline>'' @
     ''  });\<newline>'' @
     ''  \<newline>'' @
     ''  test('should load the page successfully', async ({ page }) => {\<newline>'' @
     ''    await expect(page).toHaveURL(new RegExp('' @ [CHR 0x27] @ replaceColons route @ [CHR 0x27] @
     ''));\<newline>'' @
     ''    await expect(page).not.toHaveTitle(/Error|404|Not Found/i);\<newline>'' @
     ''  });\<newline>'' @
     ''  \<newline>'' @
     ''  test('should display expected elements', async ({ page }) => {\<newline>'' @
     ''    // Check for common UI elements that should be present\<newline>'' @
     ''    await expect(page.locator('header')).toBeVisible();\<newline>'' @
     ''    await expect(page.locator('footer')).toBeVisible();\<newline>'' @
     ''    \<newline>'' @
     ''    // Add more specific element checks\<newline>'' @
     ''  });\<newline>'' @
     ''});''"

definition componentTemplate :: "string \<Rightarrow> string \<Rightarrow> string" where
  "componentTemplate testName component =
     ''import { test, expect } from '@playwright/test';\<newline>'' @
     ''\<newline>'' @
     ''test.describe('' @ [CHR 0x27] @ testName @ '' - '' @ component @
     '' Component', () => {\<newline>'' @
     ''  test.beforeEach(async ({ page }) => {\<newline>'' @
     ''    // Navigate to a page containing the component\<newline>'' @
     ''    await page.goto('/');\<newline>'' @
     ''  });\<newline>'' @
     ''  \<newline>'' @
     ''  test('should render the '' @ component @ '' component', async ({ page }) => {\<newline>'' @
     ''    // Assuming the component has a data-testid attribute or unique selector\<newline>'' @
     ''    await expect(page.locator('[data-testid=\"'' @ toLowerCase component @
     ''\"]')).toBeVisible();\<newline>'' @
     ''    // Add more specific assertions for the component\<newline>'' @
     ''  });\<newline>'' @
     ''  \<newline>'' @
     ''  test('should interact correctly', async ({ page }) => {\<newline>'' @
     ''    // Test interactions with the component\<newline>'' @
     ''    // Example: clicking, typing, etc.\<newline>'' @
     ''  });\<newline>'' @
     ''});''"

definition formTemplate :: "string \<Rightarrow> string \<Rightarrow> string" where
  "formTemplate testName formPath' =
     ''import { test, expect } from '@playwright/test';\<newline>'' @
     ''\<newline>'' @
     ''test.describe('' @ [CHR 0x27] @ testName @ '' - Form Submission', () => {\<newline>'' @
     ''  test.beforeEach(async ({ page }) => {\<newline>'' @
     ''    await page.goto('' @ [CHR 0x27] @ formPath' @ [CHR 0x27] @ '');\<newline>'' @
     ''  });\<newline>'' @
     ''  \<newline>'' @
     ''  test('should display the form', async ({ page }) => {\<newline>'' @
     ''    await expect(page.locator('form')).toBeVisible();\<newline>'' @
     ''    await expect(page.locator('button[type=\"submit\"]')).toBeVisible();\<newline>'' @
     ''  });\<newline>'' @
     ''  \<newline>'' @
     ''  test('should submit the form successfully', async ({ page }) => {\<newline>'' @
     ''    // Fill out the form fields\<newline>'' @
     ''    // Add appropriate selectors and values for your form\<newline>'' @
     ''    await page.fill('input[name=\"username\"]', 'testuser');\<newline>'' @
     ''    await page.fill('input[name=\"password\"]', 'password123');\<newline>'' @
     ''    \<newline>'' @
     ''    // Submit the form\<newline>'' @
     ''    await page.click('button[type=\"submit\"]');\<newline>'' @
     ''    \<newline>'' @
     ''    // Verify submission was successful\<newline>'' @
     ''    // This depends on your application's behavior after submission\<newline>'' @
     ''    await expect(page.locator('.success-message')).toBeVisible();\<newline>'' @
     ''  });\<newline>'' @
     ''  \<newline>'' @
     ''  test('should validate form inputs', async ({ page }) => {\<newline>'' @
     ''    // Submit form without filling required fields\<newline>'' @
     ''    await page.click('button[type=\"submit\"]');\<newline>'' @
     ''    \<newline>'' @
     ''    // Check for validation messages\<newline>'' @
     ''    await expect(page.locator('.error-message')).toBeVisible();\<newline>'' @
     ''  });\<newline>'' @
     ''});''"

definition urlTemplate :: "string \<Rightarrow> string \<Rightarrow> string" where
  "urlTemplate testName url =
     ''import { test, expect } from '@playwright/test';\<newline>'' @
     ''\<newline>'' @
     ''test.describe('' @ [CHR 0x27] @ testName @ [CHR 0x27] @ '', () => {\<newline>'' @
     ''  test.beforeEach(async ({ page }) => {\<newline>'' @
     ''    await page.goto('' @ [CHR 0x27] @ url @ [CHR 0x27] @ '');\<newline>'' @
     ''  });\<newline>'' @
     ''  \<newline>'' @
     ''  test('should load page successfully', async ({ page }) => {\<newline>'' @
     ''    await expect(page).toHaveURL(new RegExp('' @ [CHR 0x27] @ url @ [CHR 0x27] @
     ''));\<newline>'' @
     ''    await expect(page).not.toHaveTitle(/Error|404|Not Found/i);\<newline>'' @
     ''  });\<newline>'' @
     ''  \<newline>'' @
     ''  test('should display key UI elements', async ({ page }) => {\<newline>'' @
     ''    // Check for common UI elements that should be present\<newline>'' @
     ''    await expect(page.locator('header')).toBeVisible();\<newline>'' @
     ''    await expect(page.locator('main')).toBeVisible();\<newline>'' @
     ''    \<newline>'' @
     ''    // Add specific element checks based on the URL\<newline>'' @
     ''  });\<newline>'' @
     ''});''"

definition socketUrlLines :: "string \<Rightarrow> string \<Rightarrow> string list" where
  "socketUrlLines testName socketUrl' =
    [''import { test, expect } from '@playwright/test';'',
     ''import WebSocket from 'ws';'',
     [],
     ''test.describe('' @ [CHR 0x27] @ testName @ [CHR 0x27] @ '', () => {'',
     ''  let client: WebSocket;'',
     ''  '',
     ''  test.beforeEach(() => {'',
     ''    client = new WebSocket('' @ [CHR 0x27] @ socketUrl' @ [CHR 0x27] @ '');'',
     ''  });'',
     ''  '',
     ''  test.afterEach(() => {'',
     ''    client.close();'',
     ''  });'',
     ''  '',
     ''  test('should establish connection', async () => {'',
     ''    return new Promise<void>((resolve) => {'',
     ''      client.on('open', () => {'',
     ''        expect(client.readyState).toBe(WebSocket.OPEN);'',
     ''        resolve();'',
     ''      });'',
     ''    });'',
     ''  });'',
     ''  '',
     ''  test('should send and receive message', async () => {'',
     ''    return new Promise<void>((resolve, reject) => {'',
     ''      client.on('open', () => {'',
     ''        client.send(JSON.stringify({ type: 'test', content: 'message' }));'',
     ''      });'',
     ''      '',
     ''      client.on('message', (data) => {'',
     ''        try {'',
     ''          const message = JSON.parse(data.toString());'',
     ''          expect(message).toBeDefined();'',
     ''          resolve();'',
     ''        } catch (error) {'',
     ''          reject(error);'',
     ''        }'',
     ''      });'',
     ''      '',
     ''      // Add timeout for test failure'',
     ''      setTimeout(() => {'',
     ''        reject(new Error('Timed out waiting for response'));'',
     ''      }, 5000);'',
     ''    });'',
     ''  });'',
     ''  '',
     ''  test('should handle disconnection properly', async () => {'',
     ''    return new Promise<void>((resolve) => {'',
     ''      client.on('open', () => {'',
     ''        client.close();'',
     ''      });'',
     ''      '',
     ''      client.on('close', () => {'',
     ''        expect(client.readyState).toBe(WebSocket.CLOSED);'',
     ''        resolve();'',
     ''      });'',
     ''    });'',
     ''  });'',
     ''});'']"

definition socketUrlTemplate :: "string \<Rightarrow> string \<Rightarrow> string" where
  "socketUrlTemplate testName socketUrl' = joinLines (socketUrlLines testName socketUrl')"

definition socketDefaultLines :: "string \<Rightarrow> string list" where
  "socketDefaultLines testName =
    [''import { test, expect } from '@playwright/test';'',
     ''import WebSocket from 'ws';'',
     [],
     ''test.describe('' @ [CHR 0x27] @ testName @ [CHR 0x27] @ '', () => {'',
     ''  let client: WebSocket;'',
     ''  '',
     ''  test.beforeEach(() => {'',
     ''    client = new WebSocket('ws://localhost:3000/ws');'',
     ''  });'',
     ''  '',
     ''  test.afterEach(() => {'',
     ''    client.close();'',
     ''  });'',
     ''  '',
     ''  test('should establish connection', async () => {'',
     ''    return new Promise<void>((resolve) => {'',
     ''      client.on('open', () => {'',
     ''        expect(client.readyState).toBe(WebSocket.OPEN);'',
     ''        resolve();'',
     ''      });'',
     ''    });'',
     ''  });'',
     ''  '',
     ''  test('should send and receive message', async () => {'',
     ''    return new Promise<void>((resolve) => {'',
     ''      client.on('open', () => {'',
     ''        client.send(JSON.stringify({ type: 'test', content: 'message' }));'',
     ''      });'',
     ''      '',
     ''      client.on('message', (data) => {'',
     ''        const message = JSON.parse(data.toString());'',
     ''        expect(message).toBeDefined();'',
     ''        resolve();'',
     ''      });'',
     ''    });'',
     ''  });'',
     ''});'']"

definition socketDefaultTemplate :: "string \<Rightarrow> string" where
  "socketDefaultTemplate testName = joinLines (socketDefaultLines testName)"

definition performanceTemplate :: "string \<Rightarrow> string" where
  "performanceTemplate testName =
     ''import { test, expect } from '@playwright/test';\<newline>'' @
     ''\<newline>'' @
     ''test.describe('' @ [CHR 0x27] @ testName @ [CHR 0x27] @ '', () => {\<newline>'' @
     ''  test('should load page in less than 3 seconds', async ({ page }) => {\<newline>'' @
     ''    const startTime = Date.now();\<newline>'' @
     ''    \<newline>'' @
     ''    await page.goto('/');\<newline>'' @
     ''    \<newline>'' @
     ''    const loadTime = Date.now() - startTime;\<newline>'' @
     ''    console.log(`Load time: ${loadTime}ms`);\<newline>'' @
     ''    \<newline>'' @
     ''    expect(loadTime).toBeLessThan(3000);\<newline>'' @
     ''  });\<newline>'' @
     ''  \<newline>'' @
     ''  test('should have good performance score', async ({ page }) => {\<newline>'' @
     ''    // This test is a placeholder. To implement it fully,\<newline>'' @
     ''    // consider using Lighthouse or similar tools\<newline>'' @
     ''    await page.goto('/');\<newline>'' @
     ''    \<newline>'' @
     ''    // Simulate performance check\<newline>'' @
     ''    const performanceMetrics = await page.evaluate(() => {\<newline>'' @
     ''      return {\<newline>'' @
     ''        score: 90,\<newline>'' @
     ''        firstContentfulPaint: 800,\<newline>'' @
     ''        timeToInteractive: 1500\<newline>'' @
     ''      };\<newline>'' @
     ''    });\<newline>'' @
     ''    \<newline>'' @
     ''    expect(performanceMetrics.score).toBeGreaterThan(80);\<newline>'' @
     ''  });\<newline>'' @
     ''});''"

definition visualTemplate :: "string \<Rightarrow> string" where
  "visualTemplate testName =
     ''import { test, expect } from '@playwright/test';\<newline>'' @
     ''\<newline>'' @
     ''test.describe('' @ [CHR 0x27] @ testName @ [CHR 0x27] @ '', () => {\<newline>'' @
     ''  test('should have correct appearance on desktop', async ({ page }) => {\<newline>'' @
     ''    await page.setViewportSize({ width: 1280, height: 720 });\<newline>'' @
     ''    await page.goto('/');\<newline>'' @
     ''    \<newline>'' @
     ''    // Take screenshot and compare with baseline\<newline>'' @
     ''    expect(await page.screenshot()).toMatchSnapshot('desktop.png');\<newline>'' @
     ''  });\<newline>'' @
     ''  \<newline>'' @
     ''  test('should have correct appearance on mobile', async ({ page }) => {\<newline>'' @
     ''    await page.setViewportSize({ width: 375, height: 667 });\<newline>'' @
     ''    await page.goto('/');\<newline>'' @
     ''    \<newline>'' @
     ''    // Take screenshot and compare with baseline\<newline>'' @
     ''    expect(await page.screenshot()).toMatchSnapshot('mobile.png');\<newline>'' @
     ''  });\<newline>'' @
     ''});''"

definition basicTemplate :: "string \<Rightarrow> string" where
  "basicTemplate testName =
     ''import { test, expect } from '@playwright/test';\<newline>'' @
     ''\<newline>'' @
     ''test.describe('' @ [CHR 0x27] @ testName @ [CHR 0x27] @ '', () => {\<newline>'' @
     ''  test('basic test', async ({ page }) => {\<newline>'' @
     ''    await page.goto('/');\<newline>'' @
     ''    expect(await page.title()).not.toBe('' @ [CHR 0x27, CHR 0x27] @ '');\<newline>'' @
     ''  });\<newline>'' @
     ''});''"

definition generateTestContent :: "string \<Rightarrow> string \<Rightarrow> appInfo option \<Rightarrow> string" where
  \<comment> \<open>the text that generateTestContent writes to the test path\<close>
  "generateTestContent testType testName info =
     (let ty = toLowerCase testType in
      if ty = ''api'' then
        (case info of
           None \<Rightarrow> apiGenericTemplate testName
         | Some a \<Rightarrow>
            (case selectedEndpoint a of
               None \<Rightarrow> apiGenericTemplate testName
             | Some e \<Rightarrow> apiEndpointTemplate testName (toLowerCase (ep_method e)) (ep_path e)))
      else if ty = ''e2e'' \<or> ty = ''ui'' then
        (case info of
           None \<Rightarrow> generateGenericUITest testName
         | Some a \<Rightarrow>
            if testTarget a = Some ''route'' \<and> selectedRoute a \<noteq> None then
              routeTemplate testName (route_path (the (selectedRoute a)))
            else if testTarget a = Some ''component'' \<and> selectedComponent a \<noteq> None then
              componentTemplate testName (comp_name (the (selectedComponent a)))
            else if testTarget a = Some ''form'' then
              formTemplate testName (orElse (formPath a) ''/'')
            else if truthy (testUrl a) then
              urlTemplate testName (the (testUrl a))
            else generateGenericUITest testName)
      else if ty = ''websocket'' \<or> ty = ''ws'' then
        (case info of
           None \<Rightarrow> socketDefaultTemplate testName
         | Some a \<Rightarrow>
            if truthy (socketUrl a) then socketUrlTemplate testName (the (socketUrl a))
            else socketDefaultTemplate testName)
      else if ty = ''performance'' \<or> ty = ''perf'' then performanceTemplate testName
      else if ty = ''visual'' then visualTemplate testName
      else basicTemplate testName)"

subsection \<open>Reading a generated request body\<close>










definition emptyInfo :: appInfo where
  "emptyInfo = \<lparr>endpoints = [], components = [], routes = [], hasForms = False,
     hasAuthentication = False, hasWebSockets = False, socketImplementations = [],
     selectedEndpoint = None, testTarget = None, selectedComponent = None,
     selectedRoute = None, formPath = None, testUrl = None, socketUrl = None\<rparr>"

subsection \<open>Reading the tests of a generated file\<close>

text \<open>
  Every test of a generated file opens on a line of its own, indented by two blanks:
  \<open>test('title', async ...\<close>. The titles of the tests opened on a list of lines, and
  whether some line contains a given text:
\<close>

definition testTitles :: "string list \<Rightarrow> string list" where
  "testTitles ls =
     map (\<lambda>l. takeWhile (\<lambda>c. c \<noteq> CHR 0x27) (drop 8 l))
       (filter (prefix (''  test('' @ [CHR 0x27])) ls)"

definition mentions :: "string \<Rightarrow> string list \<Rightarrow> bool" where
  "mentions pat ls = list_ex (sublist pat) ls"

definition defaultSocketUrl :: string where
  "defaultSocketUrl = ''ws://localhost:3000/ws''"

definition socketTestTypes :: "string set" where
  "socketTestTypes = {''websocket'', ''ws''}"

definition noSocketUrl :: "appInfo option \<Rightarrow> bool" where
  \<comment> \<open>the condition \<open>appInfo && appInfo.socketUrl\<close> is falsy\<close>
  "noSocketUrl info = (case info of None \<Rightarrow> True | Some a \<Rightarrow> \<not> truthy (socketUrl a))"

definition connectTitle :: string where
  "connectTitle = ''should establish connection''"

definition exchangeTitle :: string where
  "exchangeTitle = ''should send and receive message''"

definition disconnectTitle :: string where
  "disconnectTitle = ''should handle disconnection properly''"

section \<open>Structural Scanner\<close>

subsection \<open>Directory traversal (findFiles)\<close>

text \<open>
  The part of the file system below a directory is a finite tree: \<open>readdirSync\<close> with
  \<open>withFileTypes\<close> yields, for every entry, its name and whether it is a regular file, a
  directory, or neither (a symbolic link, a socket, ...). A directory that does not exist
  is \<open>None\<close>. \<open>path.join(dir, name)\<close> is modelled for the case that findFiles produces:
  a directory path and a plain entry name.
\<close>

datatype entry = File string | Dir string "entry list" | Other string

definition skippedDirs :: "string set" where
  "skippedDirs = {''node_modules'', ''.git'', ''dist'', ''build''}"

definition joinPath :: "string \<Rightarrow> string \<Rightarrow> string" where
  "joinPath dir name = dir @ ''/'' @ name"

fun findFiles :: "string \<Rightarrow> entry list option \<Rightarrow> string list \<Rightarrow> string list" where
  "findFiles dir None extensions = []"
| "findFiles dir (Some []) extensions = []"
| "findFiles dir (Some (Dir name sub # entries)) extensions =
     (if name \<in> skippedDirs then []
      else findFiles (joinPath dir name) (Some sub) extensions)
     @ findFiles dir (Some entries) extensions"
| "findFiles dir (Some (File name # entries)) extensions =
     (if list_ex (endsWith name) extensions then [joinPath dir name] else [])
     @ findFiles dir (Some entries) extensions"
| "findFiles dir (Some (Other name # entries)) extensions =
     findFiles dir (Some entries) extensions"

text \<open>
  \<open>fileAt es cs\<close>: the components \<open>cs\<close> (directory names, then a file name) lead from
  the directory with entries \<open>es\<close> to a regular file.
\<close>

fun fileAt :: "entry list \<Rightarrow> string list \<Rightarrow> bool" where
  "fileAt es [] = False"
| "fileAt es [n] = (File n \<in> set es)"
| "fileAt es (d # cs) =
     list_ex (\<lambda>e. case e of Dir d' sub \<Rightarrow> d' = d \<and> fileAt sub cs | _ \<Rightarrow> False) es"

subsection \<open>Routes of a pages directory (analyzeUiStructure)\<close>

text \<open>
  The three replacements applied to the relative path of a page file:
  \<open>.replace(/\.(js|jsx|ts|tsx)$/, '')\<close>, \<open>.replace(/\/index$/, '')\<close> and
  \<open>.replace(/\[([^\]]+)\]/g, ':$1')\<close>. The first two anchor at the end of the string, so
  each removes a suffix. The third is global: at an opening bracket the group takes every
  character up to the next closing bracket and must be non-empty; where that fails, the
  bracket is copied and matching resumes at the next character.
\<close>

definition stripPageExtension :: "string \<Rightarrow> string" where
  "stripPageExtension s =
     (if endsWith s ''.js'' then take (length s - 3) s
      else if endsWith s ''.jsx'' then take (length s - 4) s
      else if endsWith s ''.ts'' then take (length s - 3) s
      else if endsWith s ''.tsx'' then take (length s - 4) s
      else s)"

definition collapseIndex :: "string \<Rightarrow> string" where
  "collapseIndex s = (if endsWith s ''/index'' then take (length s - 6) s else s)"

function bracketParams :: "string \<Rightarrow> string" where
  "bracketParams [] = []"
| "bracketParams (c # cs) =
     (if c = CHR ''[''
         \<and> takeWhile (\<lambda>x. x \<noteq> CHR '']'') cs \<noteq> []
         \<and> dropWhile (\<lambda>x. x \<noteq> CHR '']'') cs \<noteq> []
      then CHR '':'' # takeWhile (\<lambda>x. x \<noteq> CHR '']'') cs
             @ bracketParams (tl (dropWhile (\<lambda>x. x \<noteq> CHR '']'') cs))
      else c # bracketParams cs)"
  by pat_completeness auto
termination
proof (relation "measure length")
  show "wf (measure length)" by simp
next
  fix c :: char and cs :: string
  have "length (tl (dropWhile (\<lambda>x. x \<noteq> CHR '']'') cs)) \<le> length cs"
    by (metis length_dropWhile_le length_tl diff_le_self le_trans)
  then show "(tl (dropWhile (\<lambda>x. x \<noteq> CHR '']'') cs), c # cs) \<in> measure length"
    by simp
next
  fix c :: char and cs :: string
  show "(cs, c # cs) \<in> measure length" by simp
qed

definition deriveRoute :: "string \<Rightarrow> string" where
  "deriveRoute relativePath = ''/'' @ bracketParams (collapseIndex (stripPageExtension relativePath))"

text \<open>
  \<open>path.relative(pagesDir, file)\<close> for a file that findFiles found below \<open>pagesDir\<close>:
  the path without the directory prefix and the separator.
\<close>

definition relativeTo :: "string \<Rightarrow> string \<Rightarrow> string" where
  "relativeTo dir file = drop (length dir + 1) file"

definition pagesRoutes :: "string \<Rightarrow> entry list option \<Rightarrow> route list" where
  "pagesRoutes pagesDir tree =
     concat (map (\<lambda>file.
        (let r = deriveRoute (relativeTo pagesDir file)
         in if r \<noteq> ''/'' then [\<lparr>route_path = r, route_file = file\<rparr>] else []))
      (findFiles pagesDir tree [''.js'', ''.jsx'', ''.ts'', ''.tsx'']))"

definition sampleTree :: "entry list" where
  "sampleTree =
     [Dir ''node_modules'' [Dir ''ws'' [File ''index.js'']],
      Dir ''src'' [File ''app.ts'', Dir ''dist'' [File ''app.js''], Other ''link.ts''],
      File ''README.md'',
      File ''server.js'']"

definition samplePages :: "entry list" where
  "samplePages = [File ''index.tsx'', Dir ''users'' [File ''[id].tsx'', File ''index.tsx'']]"

section \<open>Generating a test file (generateTest)\<close>

subsection \<open>File names\<close>

text \<open>
  \<open>testName.replace(/\s+/g, '-').toLowerCase()\<close>: every maximal run of white space becomes
  one hyphen, then the name is lower-cased. \<open>Date.now()\<close> is a natural number, printed
  in decimal by the template literal.
\<close>

function hyphenate :: "string \<Rightarrow> string" where
  "hyphenate [] = []"
| "hyphenate (c # cs) =
     (if isSpace c then CHR ''-'' # hyphenate (dropWhile isSpace cs) else c # hyphenate cs)"
  by pat_completeness auto
termination
  by (relation "measure length") (auto simp: length_dropWhile_le less_Suc_eq_le)

definition slug :: "string \<Rightarrow> string" where
  "slug testName = toLowerCase (hyphenate testName)"

function decimal :: "nat \<Rightarrow> string" where
  "decimal n =
     (if n < 10 then [''0123456789'' ! n]
      else decimal (n div 10) @ [''0123456789'' ! (n mod 10)])"
  by pat_completeness auto
termination
  by (relation "measure id") auto

subsection \<open>The file system seen by generateTest\<close>

text \<open>
  The directories that exist and the contents of the regular files, by path.
  \<open>process.exit(1)\<close> and the exceptions of \<open>writeFileSync\<close> are error results.
  \<open>path.join\<close> is joinPath: separators and dot segments inside a test name are not
  modelled. \<open>mkdirSync\<close> is called with \<open>recursive: true\<close>; only the directory itself
  is recorded, its parent exists whenever generateTest reaches the call.
\<close>

record world =
  dirs :: "string set"
  files :: "string \<rightharpoonup> string"

datatype error = NoTestStructure | NotADirectory | IsADirectory

definition existsSync :: "string \<Rightarrow> world \<Rightarrow> bool" where
  "existsSync p w = (p \<in> dirs w \<or> files w p \<noteq> None)"

definition mkdirSync :: "string \<Rightarrow> world \<Rightarrow> world" where
  "mkdirSync p w = w\<lparr>dirs := insert p (dirs w)\<rparr>"

definition writeFileSync :: "string \<Rightarrow> string \<Rightarrow> string \<Rightarrow> world \<Rightarrow> error + world" where
  "writeFileSync dir name content w =
     (if dir \<notin> dirs w then Inl NotADirectory
      else if joinPath dir name \<in> dirs w then Inl IsADirectory
      else Inr (w\<lparr>files := (files w)(joinPath dir name \<mapsto> content)\<rparr>))"

subsection \<open>generateTest\<close>

definition targetDirOf :: "string \<Rightarrow> string" where
  "targetDirOf testType =
     (let ty = toLowerCase testType in
      if ty = ''api'' then ''api''
      else if ty = ''e2e'' \<or> ty = ''ui'' then ''e2e''
      else if ty = ''websocket'' \<or> ty = ''ws'' then ''websocket''
      else if ty = ''performance'' \<or> ty = ''perf'' then ''performance''
      else if ty = ''visual'' then ''visual''
      else testType)"

definition basePathOf :: "string \<Rightarrow> world \<Rightarrow> string" where
  "basePathOf cwd w =
     (if existsSync (joinPath cwd ''src/e2e'') w then ''src''
      else if existsSync (joinPath cwd ''tests/e2e'') w then ''tests''
      else [])"

definition testDirOf :: "string \<Rightarrow> string \<Rightarrow> world \<Rightarrow> string" where
  "testDirOf testType cwd w = joinPath (joinPath cwd (basePathOf cwd w)) (targetDirOf testType)"

definition fileNameOf :: "string \<Rightarrow> string" where
  "fileNameOf testName =
     (if stringIncludes testName ''.spec.'' then testName else slug testName @ ''.spec.ts'')"

definition altFileNameOf :: "string \<Rightarrow> nat \<Rightarrow> string" where
  "altFileNameOf testName now = slug testName @ ''-'' @ decimal now @ ''.spec.ts''"

definition generateTest ::
  "string \<Rightarrow> string \<Rightarrow> appInfo option \<Rightarrow> string \<Rightarrow> nat \<Rightarrow> world \<Rightarrow> error + world" where
  "generateTest testType testName info cwd now w =
     (if basePathOf cwd w = [] then Inl NoTestStructure
      else
        let testDir = testDirOf testType cwd w;
            w1 = (if \<not> existsSync testDir w then mkdirSync testDir w else w);
            fileName = fileNameOf testName
        in if existsSync (joinPath testDir fileName) w1
           then writeFileSync testDir (altFileNameOf testName now)
                  (generateTestContent testType testName info) w1
           else writeFileSync testDir fileName
                  (generateTestContent testType testName info) w1)"

definition emptyProject :: world where
  "emptyProject = \<lparr>dirs = {''/p/src/e2e''}, files = Map.empty\<rparr>"

definition flowProject :: world where
  "flowProject = \<lparr>dirs = {''/p/src/e2e''},
     files = [''/p/src/e2e/my-login-flow.spec.ts'' \<mapsto> ''first version'']\<rparr>"

definition loginProject :: world where
  "loginProject = \<lparr>dirs = {''/p/src/e2e''},
     files = [''/p/src/e2e/Login.spec.ts'' \<mapsto> ''first version'']\<rparr>"

section \<open>Placeholder Substitution Engine\<close>

subsection \<open>The placeholder tokens\<close>

definition PROJECT_NAME :: string where "PROJECT_NAME = ''{{projectName}}''"
definition BASE_URL :: string where "BASE_URL = ''{{baseUrl}}''"
definition API_URL :: string where "API_URL = ''{{apiUrl}}''"
definition ADMIN_EMAIL :: string where "ADMIN_EMAIL = ''{{adminEmail}}''"
definition ADMIN_PASSWORD :: string where "ADMIN_PASSWORD = ''{{adminPassword}}''"
definition USER_EMAIL :: string where "USER_EMAIL = ''{{userEmail}}''"
definition USER_PASSWORD :: string where "USER_PASSWORD = ''{{userPassword}}''"

subsection \<open>Global replacement with a replacement string\<close>

text \<open>
  \<open>content.replace(new RegExp(token, 'g'), value)\<close>. None of the tokens contains a
  character with a meaning in a pattern: outside Unicode mode a brace that does not form a
  quantifier stands for itself, so the pattern matches the token literally, and it has no
  capture group. The matches are found from left to right and do not overlap. The second
  argument is a replacement string: in it \<open>$$\<close> stands for a dollar sign, \<open>$&\<close> for
  the matched text, \<open>$`\<close> and \<open>$'\<close> for the text before and after the match; a
  dollar sign followed by anything else (a digit included, as there is no group) stands for
  itself. The guard \<open>token \<noteq> []\<close> keeps the recursion well-founded; all tokens are
  non-empty.
\<close>

fun expandReplacement :: "string \<Rightarrow> string \<Rightarrow> string \<Rightarrow> string \<Rightarrow> string" where
  "expandReplacement [] matched before after = []"
| "expandReplacement [c] matched before after = [c]"
| "expandReplacement (c # d # r) matched before after =
     (if c = CHR ''$'' \<and> d = CHR ''$'' then CHR ''$'' # expandReplacement r matched before after
      else if c = CHR ''$'' \<and> d = CHR ''&'' then matched @ expandReplacement r matched before after
      else if c = CHR ''$'' \<and> d = CHR 0x60 then before @ expandReplacement r matched before after
      else if c = CHR ''$'' \<and> d = CHR 0x27 then after @ expandReplacement r matched before after
      else c # expandReplacement (d # r) matched before after)"

function replaceGlobal :: "string \<Rightarrow> string \<Rightarrow> string \<Rightarrow> string \<Rightarrow> string" where
  "replaceGlobal token replacement before [] = []"
| "replaceGlobal token replacement before (c # cs) =
     (if token \<noteq> [] \<and> prefix token (c # cs)
      then expandReplacement replacement token before (drop (length token) (c # cs))
           @ replaceGlobal token replacement (before @ token) (drop (length token) (c # cs))
      else c # replaceGlobal token replacement (before @ [c]) cs)"
  by pat_completeness auto
termination
  by (relation "measure (\<lambda>(t, r, b, s). length s)") auto

definition jsReplaceAll :: "string \<Rightarrow> string \<Rightarrow> string \<Rightarrow> string" where
  "jsReplaceAll token replacement s = replaceGlobal token replacement [] s"

subsection \<open>The substitution of createProject\<close>

text \<open>
  The project name and the prompted values. The four credentials are read as
  \<open>options.adminEmail || ''\<close>, so they may be absent.
\<close>

record config =
  projectName :: string
  baseUrl :: string
  apiUrl :: string
  adminEmail :: "string option"
  adminPassword :: "string option"
  userEmail :: "string option"
  userPassword :: "string option"

definition replacePlaceholders :: "config \<Rightarrow> string \<Rightarrow> string" where
  "replacePlaceholders cfg content =
     jsReplaceAll USER_PASSWORD (orElse (userPassword cfg) [])
      (jsReplaceAll USER_EMAIL (orElse (userEmail cfg) [])
        (jsReplaceAll ADMIN_PASSWORD (orElse (adminPassword cfg) [])
          (jsReplaceAll ADMIN_EMAIL (orElse (adminEmail cfg) [])
            (jsReplaceAll API_URL (apiUrl cfg)
              (jsReplaceAll BASE_URL (baseUrl cfg)
                (jsReplaceAll PROJECT_NAME (projectName cfg) content))))))"

definition processedExtensions :: "string list" where
  "processedExtensions = [''.json'', ''.js'', ''.ts'', ''.md'', ''.example'', ''.txt'', ''.html'']"

definition processFile :: "string \<Rightarrow> config \<Rightarrow> string \<Rightarrow> string" where
  "processFile file cfg content =
     (if list_ex (endsWith file) processedExtensions then replacePlaceholders cfg content
      else content)"

subsection \<open>The substitution as the specification words it\<close>

text \<open>
  Replace every occurrence of each token with the corresponding value, leaving all other
  text untouched: one pass over the content from left to right; where a token starts,
  its value is emitted and the token skipped, every other character is copied.
\<close>

definition substitutions :: "config \<Rightarrow> (string \<times> string) list" where
  "substitutions cfg =
     [(PROJECT_NAME, projectName cfg), (BASE_URL, baseUrl cfg), (API_URL, apiUrl cfg),
      (ADMIN_EMAIL, orElse (adminEmail cfg) []), (ADMIN_PASSWORD, orElse (adminPassword cfg) []),
      (USER_EMAIL, orElse (userEmail cfg) []), (USER_PASSWORD, orElse (userPassword cfg) [])]"

fun firstMatch :: "(string \<times> string) list \<Rightarrow> string \<Rightarrow> (string \<times> string) option" where
  "firstMatch [] s = None"
| "firstMatch ((t, v) # tv) s = (if t \<noteq> [] \<and> prefix t s then Some (t, v) else firstMatch tv s)"

function substituteAll :: "(string \<times> string) list \<Rightarrow> string \<Rightarrow> string" where
  "substituteAll tv [] = []"
| "substituteAll tv (c # cs) =
     (case firstMatch tv (c # cs) of
        Some (t, v) \<Rightarrow> v @ substituteAll tv (drop (length t) (c # cs))
      | None \<Rightarrow> c # substituteAll tv cs)"
  by pat_completeness auto
termination
proof (relation "measure (\<lambda>(tv, s). length s)")
  show "wf (measure (\<lambda>(tv, s). length s))" by simp
next
  fix tv :: "(string \<times> string) list" and c :: char and cs x t v
  assume m: "firstMatch tv (c # cs) = Some x" and x: "(t, v) = x"
  have "firstMatch tv s = Some (t, v) \<Longrightarrow> t \<noteq> []" for s
    by (induction tv) (auto split: if_splits)
  then have "t \<noteq> []" using m x by blast
  then show "((tv, drop (length t) (c # cs)), tv, c # cs) \<in> measure (\<lambda>(tv, s). length s)"
    by simp
next
  fix tv :: "(string \<times> string) list" and c :: char and cs
  show "((tv, cs), tv, c # cs) \<in> measure (\<lambda>(tv, s). length s)" by simp
qed

text \<open>
  Global replacement of a literal by a text that is inserted as it is, and the
  conditions under which the chain of replacements and the single pass agree: a token is
  two opening braces, a name, two closing braces; a clean value has no dollar sign and no
  brace and is not a part of any token.
\<close>

function replaceLiteral :: "string \<Rightarrow> string \<Rightarrow> string \<Rightarrow> string" where
  "replaceLiteral t v [] = []"
| "replaceLiteral t v (c # cs) =
     (if t \<noteq> [] \<and> prefix t (c # cs) then v @ replaceLiteral t v (drop (length t) (c # cs))
      else c # replaceLiteral t v cs)"
  by pat_completeness auto
termination
  by (relation "measure (\<lambda>(t, v, s). length s)") auto

definition tokenShaped :: "string \<Rightarrow> bool" where
  "tokenShaped t =
     (prefix ''{{'' t \<and> 2 < length t \<and> last t = CHR ''}'' \<and> CHR ''{'' \<notin> set (drop 2 t))"

definition placeholders :: "string list" where
  "placeholders = [PROJECT_NAME, BASE_URL, API_URL, ADMIN_EMAIL, ADMIN_PASSWORD, USER_EMAIL,
     USER_PASSWORD]"

definition cleanValue :: "string \<Rightarrow> bool" where
  "cleanValue v =
     (CHR ''$'' \<notin> set v \<and> CHR ''{'' \<notin> set v \<and> CHR ''}'' \<notin> set v
      \<and> list_all (\<lambda>t. \<not> sublist v t) placeholders)"

definition cleanConfig :: "config \<Rightarrow> bool" where
  "cleanConfig cfg = list_all (\<lambda>(t, v). cleanValue v) (substitutions cfg)"

definition sampleConfig :: config where
  "sampleConfig = \<lparr>projectName = ''shop-tests'', baseUrl = ''http://localhost:3000'',
     apiUrl = ''http://localhost:3000/api'', adminEmail = Some ''admin@example.com'',
     adminPassword = Some ''admin_password'', userEmail = Some ''user@example.com'',
     userPassword = Some ''user_password''\<rparr>"

section \<open>Websocket scan (analyzeWebSockets)\<close>

subsection \<open>The four socket patterns\<close>

text \<open>
  \<open>socketPatterns\<close> holds four regular expressions, created once before the loop over
  the files:
  \<^item> \<open>/\b(WebSocket|ws|socket\.io|socketio|sock)\b/i\<close>, without the global flag;
  \<^item> \<open>/new\s+WebSocket\s*\(\s*["']([^"']*)["']/g\<close>;
  \<^item> \<open>/io\s*\(\s*["']([^"']*)["']/g\<close>;
  \<^item> \<open>/socket\.connect\s*\(\s*["']([^"']*)["']/g\<close>.

  Every RegExp object has the method \<open>exec\<close>, so the test
  \<open>typeof pattern.exec === 'function'\<close> holds for all four.
\<close>

datatype pattern = IdentifierPresence | NewWebSocket | IoCall | SocketConnect

definition socketPatterns :: "pattern list" where
  "socketPatterns = [IdentifierPresence, NewWebSocket, IoCall, SocketConnect]"

definition isGlobal :: "pattern \<Rightarrow> bool" where
  "isGlobal p = (p \<noteq> IdentifierPresence)"

definition hasExec :: "pattern \<Rightarrow> bool" where
  "hasExec p = True"

subsection \<open>Matching at one position\<close>

text \<open>
  Each matcher is given the text from the position on (and, for \<open>\b\<close>, the character
  before it) and yields the first capture group with the length of the match. The
  alternatives of the first pattern are tried in order, each followed by the closing
  \<open>\b\<close>; with the flag \<open>i\<close> characters are compared by their upper-case forms. In the
  other patterns every repetition is followed by a character outside its class, so the
  greedy match is the only one: the white space runs take all white space, the group takes
  every character up to the next quote, and a quote must follow.
\<close>

definition wordBoundary :: "char option \<Rightarrow> string \<Rightarrow> bool" where
  "wordBoundary prev rest =
     ((case prev of None \<Rightarrow> False | Some c \<Rightarrow> isWordChar c)
      \<noteq> (case rest of [] \<Rightarrow> False | c # _ \<Rightarrow> isWordChar c))"

definition matchesIgnoreCase :: "string \<Rightarrow> string \<Rightarrow> bool" where
  "matchesIgnoreCase lit s =
     (length lit \<le> length s \<and> map toUpperChar (take (length lit) s) = map toUpperChar lit)"

definition identifiers :: "string list" where
  "identifiers = [''WebSocket'', ''ws'', ''socket.io'', ''socketio'', ''sock'']"

fun matchIdentifier :: "string \<Rightarrow> string list \<Rightarrow> (string \<times> nat) option" where
  "matchIdentifier s [] = None"
| "matchIdentifier s (a # as) =
     (if matchesIgnoreCase a s
         \<and> wordBoundary (Some (last (take (length a) s))) (drop (length a) s)
      then Some (take (length a) s, length a)
      else matchIdentifier s as)"

definition matchLiteral :: "string \<Rightarrow> string \<Rightarrow> string option" where
  "matchLiteral lit s = (if prefix lit s then Some (drop (length lit) s) else None)"

definition isQuote :: "char \<Rightarrow> bool" where
  "isQuote c = (c = CHR 0x22 \<or> c = CHR 0x27)"

definition matchQuoted :: "string \<Rightarrow> (string \<times> string) option" where
  "matchQuoted s =
     (if s \<noteq> [] \<and> isQuote (hd s) \<and> dropWhile (\<lambda>c. \<not> isQuote c) (tl s) \<noteq> []
      then Some (takeWhile (\<lambda>c. \<not> isQuote c) (tl s),
                 tl (dropWhile (\<lambda>c. \<not> isQuote c) (tl s)))
      else None)"

definition matchCallTail :: "string \<Rightarrow> (string \<times> string) option" where
  "matchCallTail s =
     (case matchLiteral ''('' (dropWhile isSpace s) of
        None \<Rightarrow> None
      | Some r \<Rightarrow> matchQuoted (dropWhile isSpace r))"

definition matchNewWebSocket :: "string \<Rightarrow> (string \<times> string) option" where
  "matchNewWebSocket s =
     (case matchLiteral ''new'' s of
        None \<Rightarrow> None
      | Some r \<Rightarrow>
          if r \<noteq> [] \<and> isSpace (hd r)
          then (case matchLiteral ''WebSocket'' (dropWhile isSpace r) of
                  None \<Rightarrow> None
                | Some r' \<Rightarrow> matchCallTail r')
          else None)"

definition matchIoCall :: "string \<Rightarrow> (string \<times> string) option" where
  "matchIoCall s =
     (case matchLiteral ''io'' s of None \<Rightarrow> None | Some r \<Rightarrow> matchCallTail r)"

definition matchSocketConnect :: "string \<Rightarrow> (string \<times> string) option" where
  "matchSocketConnect s =
     (case matchLiteral ''socket.connect'' s of None \<Rightarrow> None | Some r \<Rightarrow> matchCallTail r)"

definition withLength :: "string \<Rightarrow> (string \<times> string) option \<Rightarrow> (string \<times> nat) option" where
  "withLength s m = (case m of None \<Rightarrow> None | Some (g, rest) \<Rightarrow> Some (g, length s - length rest))"

fun matchHere :: "pattern \<Rightarrow> char option \<Rightarrow> string \<Rightarrow> (string \<times> nat) option" where
  "matchHere IdentifierPresence prev s =
     (if wordBoundary prev s then matchIdentifier s identifiers else None)"
| "matchHere NewWebSocket prev s = withLength s (matchNewWebSocket s)"
| "matchHere IoCall prev s = withLength s (matchIoCall s)"
| "matchHere SocketConnect prev s = withLength s (matchSocketConnect s)"

subsection \<open>exec and the while loop\<close>

text \<open>
  \<open>search\<close> finds the leftmost position, from index \<open>i\<close> on, at which the pattern
  matches and yields the index, the end of the match and the group.
  \<open>pattern.exec(content)\<close> starts at \<open>lastIndex\<close> when the pattern is global and at 0
  otherwise; a global pattern stores the end of the match in \<open>lastIndex\<close>, or 0 when
  there is no match; a pattern without the global flag leaves \<open>lastIndex\<close> as it is.
  \<open>exec\<close> returns the group (\<open>match[1]\<close>) or \<open>None\<close> for \<open>null\<close>, and the new
  \<open>lastIndex\<close>.
\<close>

fun search :: "pattern \<Rightarrow> char option \<Rightarrow> string \<Rightarrow> nat \<Rightarrow> (nat \<times> nat \<times> string) option" where
  "search p prev [] i =
     (case matchHere p prev [] of None \<Rightarrow> None | Some (g, n) \<Rightarrow> Some (i, i + n, g))"
| "search p prev (c # cs) i =
     (case matchHere p prev (c # cs) of
        None \<Rightarrow> search p (Some c) cs (Suc i)
      | Some (g, n) \<Rightarrow> Some (i, i + n, g))"

definition findMatch :: "pattern \<Rightarrow> string \<Rightarrow> nat \<Rightarrow> (nat \<times> nat \<times> string) option" where
  "findMatch p content start =
     (if length content < start then None
      else search p (if start = 0 then None else Some (content ! (start - 1)))
             (drop start content) start)"

definition exec :: "pattern \<Rightarrow> string \<Rightarrow> nat \<Rightarrow> string option \<times> nat" where
  "exec p content lastIndex =
     (case findMatch p content (if isGlobal p then lastIndex else 0) of
        None \<Rightarrow> (None, if isGlobal p then 0 else lastIndex)
      | Some (i, e, g) \<Rightarrow> (Some g, if isGlobal p then e else lastIndex))"

definition test :: "pattern \<Rightarrow> string \<Rightarrow> nat \<Rightarrow> bool \<times> nat" where
  "test p content lastIndex = (fst (exec p content lastIndex) \<noteq> None, snd (exec p content lastIndex))"

text \<open>
  \<open>while ((match = pattern.exec(content)) !== null) { if (match[1]) push }\<close>. The loop
  need not end, so it is a partial function: \<open>None\<close> is a run that never leaves the loop.
\<close>

partial_function (option) whileExec ::
  "pattern \<Rightarrow> string \<Rightarrow> string \<Rightarrow> nat \<Rightarrow> socketImplementation list
     \<Rightarrow> (nat \<times> socketImplementation list) option" where
  "whileExec p file content lastIndex found =
     (case exec p content lastIndex of
        (None, li) \<Rightarrow> Some (li, found)
      | (Some g, li) \<Rightarrow>
          whileExec p file content li
            (if g \<noteq> [] then found @ [\<lparr>impl_file = file, impl_url = Some g\<rparr>] else found))"

subsection \<open>The scan\<close>

text \<open>
  The state of the scan: the \<open>lastIndex\<close> of each pattern (the patterns outlive the
  files), the socket implementations found so far and \<open>appInfo.hasWebSockets\<close>. The
  loop over the patterns keeps the branch \<open>else if (pattern.test(content))\<close> of the
  source. A file that does not exist is skipped. The prompts that follow the scan are
  parameters: \<open>pick\<close> is the choice among the URLs found, \<open>manual\<close> the URL typed in.
\<close>

record scanState =
  lastIndexOf :: "pattern \<Rightarrow> nat"
  found :: "socketImplementation list"
  flagged :: bool

fun scanPatterns :: "pattern list \<Rightarrow> string \<Rightarrow> string \<Rightarrow> scanState \<Rightarrow> scanState option" where
  "scanPatterns [] file content st = Some st"
| "scanPatterns (p # ps) file content st =
     (if hasExec p then
        (case whileExec p file content (lastIndexOf st p) (found st) of
           None \<Rightarrow> None
         | Some (li, acc) \<Rightarrow>
             scanPatterns ps file content (st\<lparr>lastIndexOf := (lastIndexOf st)(p := li), found := acc\<rparr>))
      else if fst (test p content (lastIndexOf st p)) then
        scanPatterns ps file content
          (st\<lparr>lastIndexOf := (lastIndexOf st)(p := snd (test p content (lastIndexOf st p))),
              found := found st @ [\<lparr>impl_file = file, impl_url = None\<rparr>],
              flagged := True\<rparr>)
      else
        scanPatterns ps file content
          (st\<lparr>lastIndexOf := (lastIndexOf st)(p := snd (test p content (lastIndexOf st p)))\<rparr>))"

fun scanFiles :: "string list \<Rightarrow> (string \<rightharpoonup> string) \<Rightarrow> scanState \<Rightarrow> scanState option" where
  "scanFiles [] contents st = Some st"
| "scanFiles (file # rest) contents st =
     (case contents file of
        None \<Rightarrow> scanFiles rest contents st
      | Some content \<Rightarrow>
          (case scanPatterns socketPatterns file content st of
             None \<Rightarrow> None
           | Some st' \<Rightarrow> scanFiles rest contents st'))"

definition uniqueUrls :: "socketImplementation list \<Rightarrow> string list" where
  "uniqueUrls impls =
     rev (remdups (rev (map (\<lambda>i. the (impl_url i)) (filter (\<lambda>i. truthy (impl_url i)) impls))))"

definition analyzeWebSockets ::
  "string \<Rightarrow> entry list option \<Rightarrow> (string \<rightharpoonup> string) \<Rightarrow> (string list \<Rightarrow> string) \<Rightarrow> string
     \<Rightarrow> appInfo \<Rightarrow> appInfo option" where
  "analyzeWebSockets appDir tree contents pick manual info =
     (case scanFiles (findFiles appDir tree [''.js'', ''.ts'', ''.jsx'', ''.tsx'']) contents
             \<lparr>lastIndexOf = (\<lambda>p. 0), found = [], flagged = hasWebSockets info\<rparr> of
        None \<Rightarrow> None
      | Some st \<Rightarrow>
          Some (if found st \<noteq> []
                then info\<lparr>hasWebSockets := flagged st, socketImplementations := found st,
                       socketUrl := Some (if uniqueUrls (found st) \<noteq> []
                                          then pick (uniqueUrls (found st)) else manual)\<rparr>
                else info\<lparr>hasWebSockets := flagged st, socketUrl := Some manual\<rparr>))"

text \<open>Two projects with one source file, and the contents that match the first pattern.\<close>

definition socketTree :: "entry list" where
  "socketTree = [File ''client.js'']"

definition chattyContents :: "string \<rightharpoonup> string" where
  "chattyContents = [''app/client.js'' \<mapsto> ''ws.send(1)'']"


definition identifierPresent :: "string \<Rightarrow> bool" where
  "identifierPresent content = (findMatch IdentifierPresence content 0 \<noteq> None)"

section \<open>Verification: the per-method success body\<close>


















section \<open>Verification: the websocket templates\<close>

lemma linesOf_no_newline: "CHR 0x0A \<notin> set l \<Longrightarrow> linesOf l = [l]"
  by (induction l) auto

lemma linesOf_append_newline:
  "CHR 0x0A \<notin> set l \<Longrightarrow> linesOf (l @ CHR 0x0A # rest) = l # linesOf rest"
  by (induction l) auto

lemma linesOf_joinLines:
  "ls \<noteq> [] \<Longrightarrow> \<forall>l \<in> set ls. CHR 0x0A \<notin> set l \<Longrightarrow> linesOf (joinLines ls) = ls"
proof (induction ls rule: joinLines.induct)
  case 1
  then show ?case by simp
next
  case (2 l)
  then show ?case by (simp add: linesOf_no_newline)
next
  case (3 l v va)
  then show ?case by (simp add: linesOf_append_newline)
qed

lemma toLowerCase_websocket: "toLowerCase ''websocket'' = ''websocket''"
  by code_simp

lemma toLowerCase_ws: "toLowerCase ''ws'' = ''ws''"
  by code_simp

lemma socketDefault_titles:
  "testTitles (socketDefaultLines n) = [connectTitle, exchangeTitle]"
  by (simp add: socketDefaultLines_def testTitles_def connectTitle_def exchangeTitle_def)

lemma socketDefault_no_timeout: "\<not> mentions ''setTimeout'' (drop 4 (socketDefaultLines n))"
  by (simp add: socketDefaultLines_def mentions_def sublist_code)

lemma socketDefault_url:
  "''    client = new WebSocket('' @ [CHR 0x27] @ defaultSocketUrl @ [CHR 0x27] @ '');''
     \<in> set (socketDefaultLines n)"
  by (simp add: socketDefaultLines_def defaultSocketUrl_def)

lemma socketUrl_titles:
  "testTitles (socketUrlLines n u) = [connectTitle, exchangeTitle, disconnectTitle]"
  by (simp add: socketUrlLines_def testTitles_def connectTitle_def exchangeTitle_def
      disconnectTitle_def)

lemma generateTestContent_socket_default:
  assumes "toLowerCase ty \<in> socketTestTypes" and "noSocketUrl info"
  shows "generateTestContent ty n info = socketDefaultTemplate n"
proof -
  have ty: "toLowerCase ty \<noteq> ''api''" "toLowerCase ty \<noteq> ''e2e''" "toLowerCase ty \<noteq> ''ui''"
    using assms(1) by (auto simp: socketTestTypes_def)
  show ?thesis
    using assms ty
    by (auto simp: generateTestContent_def Let_def noSocketUrl_def socketTestTypes_def
        split: option.splits)
qed

lemma linesOf_socketDefault_chat:
  "linesOf (socketDefaultTemplate ''chat'') = socketDefaultLines ''chat''"
  unfolding socketDefaultTemplate_def
  by (rule linesOf_joinLines) (simp_all add: socketDefaultLines_def)

lemma linesOf_socketUrl_chat:
  "linesOf (socketUrlTemplate ''chat'' defaultSocketUrl) = socketUrlLines ''chat'' defaultSocketUrl"
  unfolding socketUrlTemplate_def
  by (rule linesOf_joinLines) (simp_all add: socketUrlLines_def defaultSocketUrl_def)

lemma socketDefault_chat_no_5000: "\<not> mentions ''5000'' (socketDefaultLines ''chat'')"
  by (simp add: socketDefaultLines_def mentions_def sublist_code)

lemma socketUrl_chat_5000: "''      }, 5000);'' \<in> set (socketUrlLines n u)"
  by (simp add: socketUrlLines_def)

text \<open>
  C5, as stated, fails: for the test name \<open>chat\<close> and no scan result, the generated
  websocket file holds two tests, neither the disconnection test nor the 5000 ms timeout,
  while the file generated for the same name with the default URL selected holds three
  tests and the timeout.
\<close>

theorem socket_default_counterexample:
  "testTitles (linesOf (generateTestContent ''websocket'' ''chat'' None))
     = [connectTitle, exchangeTitle]
   \<and> \<not> mentions ''5000'' (linesOf (generateTestContent ''websocket'' ''chat'' None))
   \<and> testTitles (linesOf (generateTestContent ''websocket'' ''chat''
         (Some (emptyInfo\<lparr>socketUrl := Some defaultSocketUrl\<rparr>))))
     = [connectTitle, exchangeTitle, disconnectTitle]
   \<and> ''      }, 5000);'' \<in> set (linesOf (generateTestContent ''websocket'' ''chat''
         (Some (emptyInfo\<lparr>socketUrl := Some defaultSocketUrl\<rparr>))))"
proof -
  have d: "generateTestContent ''websocket'' ''chat'' None = socketDefaultTemplate ''chat''"
    by (simp add: generateTestContent_def toLowerCase_websocket)
  have u: "generateTestContent ''websocket'' ''chat''
         (Some (emptyInfo\<lparr>socketUrl := Some defaultSocketUrl\<rparr>))
       = socketUrlTemplate ''chat'' defaultSocketUrl"
    by (simp add: generateTestContent_def toLowerCase_websocket truthy_def defaultSocketUrl_def)
  show ?thesis
    unfolding d u linesOf_socketDefault_chat linesOf_socketUrl_chat
    using socketDefault_titles socketDefault_chat_no_5000 socketUrl_titles socketUrl_chat_5000
    by blast
qed

text \<open>
  C5, amended. For the websocket and ws categories with no socket URL selected, the
  generated file is the default template: its lines are socketDefaultLines, which open
  a client on the fixed URL \<open>ws://localhost:3000/ws\<close> and hold exactly two tests,
  connection establishment and send-and-receive; after the describe line (the fourth
  line, which carries the test name) no line sets a timeout.
\<close>

theorem socket_default_template:
  assumes "toLowerCase ty \<in> socketTestTypes" and "noSocketUrl info"
  shows "generateTestContent ty n info = joinLines (socketDefaultLines n)
       \<and> ''    client = new WebSocket('' @ [CHR 0x27] @ defaultSocketUrl @ [CHR 0x27] @ '');''
            \<in> set (socketDefaultLines n)
       \<and> testTitles (socketDefaultLines n) = [connectTitle, exchangeTitle]
       \<and> \<not> mentions ''setTimeout'' (drop 4 (socketDefaultLines n))"
  using generateTestContent_socket_default [OF assms] socketDefault_url socketDefault_titles
    socketDefault_no_timeout
  by (simp add: socketDefaultTemplate_def)

theorem socket_default_template_witness:
  "toLowerCase ''ws'' \<in> socketTestTypes \<and> noSocketUrl None
   \<and> generateTestContent ''ws'' ''chat'' None = joinLines (socketDefaultLines ''chat'')
   \<and> testTitles (socketDefaultLines ''chat'') = [connectTitle, exchangeTitle]"
proof -
  have t: "toLowerCase ''ws'' \<in> socketTestTypes"
    by (simp add: toLowerCase_ws socketTestTypes_def)
  have n: "noSocketUrl None"
    by (simp add: noSocketUrl_def)
  show ?thesis
    using socket_default_template [OF t n, of "''chat''"] t n by simp
qed

section \<open>Verification: the directory traversal\<close>

lemma fileAt_Cons:
  assumes "fileAt es cs"
  shows "fileAt (e # es) cs"
proof (cases cs)
  case Nil
  with assms show ?thesis by simp
next
  case (Cons d cs')
  with assms show ?thesis by (cases cs') simp_all
qed

lemma fileAt_nonempty: "fileAt es cs \<Longrightarrow> cs \<noteq> []"
  by auto

lemma fileAt_Dir:
  assumes "fileAt sub cs"
  shows "fileAt (Dir name sub # es) (name # cs)"
proof -
  obtain c cs' where "cs = c # cs'"
    using assms by (cases cs) auto
  with assms show ?thesis by simp
qed

text \<open>
  C8. Every path returned by findFiles for an existing root is the root joined with the
  components of a regular file of the tree, and none of the directories on the way from
  the root to the file is named node_modules, .git, dist or build.
\<close>

theorem findFiles_skips:
  assumes "p \<in> set (findFiles root (Some es) exts)"
  shows "\<exists>cs. p = foldl joinPath root cs \<and> fileAt es cs \<and> set (butlast cs) \<inter> skippedDirs = {}"
  using assms
proof (induction root "Some es" exts arbitrary: es rule: findFiles.induct)
  case (2 dir extensions)
  then show ?case by simp
next
  case (3 dir name sub entries extensions)
  show ?case
  proof (cases "name \<notin> skippedDirs \<and> p \<in> set (findFiles (joinPath dir name) (Some sub) extensions)")
    case True
    then obtain cs where cs: "p = foldl joinPath (joinPath dir name) cs" "fileAt sub cs"
        "set (butlast cs) \<inter> skippedDirs = {}"
      using "3.hyps"(1) by blast
    have ne: "cs \<noteq> []" using cs(2) by auto
    have "p = foldl joinPath dir (name # cs)"
      using cs(1) by simp
    moreover have "fileAt (Dir name sub # entries) (name # cs)"
      using cs(2) by (rule fileAt_Dir)
    moreover have "set (butlast (name # cs)) \<inter> skippedDirs = {}"
      using cs(3) True ne by simp
    ultimately show ?thesis by (intro exI[of _ "name # cs"] conjI)
  next
    case False
    then have "p \<in> set (findFiles dir (Some entries) extensions)"
      using "3.prems" by (auto split: if_splits)
    then obtain cs where cs: "p = foldl joinPath dir cs" "fileAt entries cs"
        "set (butlast cs) \<inter> skippedDirs = {}"
      using "3.hyps"(2) by blast
    show ?thesis
      using cs(1) fileAt_Cons[OF cs(2)] cs(3) by (intro exI[of _ cs] conjI)
  qed
next
  case (4 dir name entries extensions)
  show ?case
  proof (cases "p \<in> set (findFiles dir (Some entries) extensions)")
    case True
    then obtain cs where cs: "p = foldl joinPath dir cs" "fileAt entries cs"
        "set (butlast cs) \<inter> skippedDirs = {}"
      using "4.hyps" by blast
    show ?thesis
      using cs(1) fileAt_Cons[OF cs(2)] cs(3) by (intro exI[of _ cs] conjI)
  next
    case False
    then have "p = joinPath dir name"
      using "4.prems" by (auto split: if_splits)
    then show ?thesis
      by (intro exI[of _ "[name]"]) simp
  qed
next
  case (5 dir name entries extensions)
  then obtain cs where cs: "p = foldl joinPath dir cs" "fileAt entries cs"
      "set (butlast cs) \<inter> skippedDirs = {}"
    by auto
  show ?case
    using cs(1) fileAt_Cons[OF cs(2)] cs(3) by (intro exI[of _ cs] conjI)
qed

lemma findFiles_sampleTree:
  "findFiles ''app'' (Some sampleTree) [''.js'', ''.ts''] = [''app/src/app.ts'', ''app/server.js'']"
  by (simp add: sampleTree_def skippedDirs_def joinPath_def endsWith_def suffix_to_prefix)

theorem findFiles_skips_witness:
  "''app/src/app.ts'' \<in> set (findFiles ''app'' (Some sampleTree) [''.js'', ''.ts''])
   \<and> (\<exists>cs. ''app/src/app.ts'' = foldl joinPath ''app'' cs \<and> fileAt sampleTree cs
          \<and> set (butlast cs) \<inter> skippedDirs = {})"
proof -
  have m: "''app/src/app.ts'' \<in> set (findFiles ''app'' (Some sampleTree) [''.js'', ''.ts''])"
    by (simp add: findFiles_sampleTree)
  from findFiles_skips [OF m] m show ?thesis by blast
qed

section \<open>Verification: routes of a pages directory\<close>

lemma deriveRoute_users_id: "deriveRoute ''users/[id].tsx'' = ''/users/:id''"
  by (simp add: deriveRoute_def stripPageExtension_def collapseIndex_def endsWith_def
      suffix_to_prefix)

lemma deriveRoute_nested_index: "deriveRoute ''users/index.tsx'' = ''/users''"
  by (simp add: deriveRoute_def stripPageExtension_def collapseIndex_def endsWith_def
      suffix_to_prefix)

lemma deriveRoute_index: "deriveRoute ''index.tsx'' = ''/index''"
  by (simp add: deriveRoute_def stripPageExtension_def collapseIndex_def endsWith_def
      suffix_to_prefix)

lemma findFiles_samplePages:
  "findFiles ''pages'' (Some samplePages) [''.js'', ''.jsx'', ''.ts'', ''.tsx'']
     = [''pages/index.tsx'', ''pages/users/[id].tsx'', ''pages/users/index.tsx'']"
  by (simp add: samplePages_def skippedDirs_def joinPath_def endsWith_def suffix_to_prefix)

text \<open>
  C2 at \<open>pages/index.tsx\<close>. The relative path of a top-level index file is
  \<open>index.tsx\<close>; it has no slash, so \<open>/\/index$/\<close> does not match, the derived route is
  \<open>/index\<close> and not the root route, and the route is kept. The page \<open>users/[id].tsx\<close>
  derives \<open>/users/:id\<close>, and a nested index file collapses to its directory.
\<close>

theorem pages_index_route_kept:
  "pagesRoutes ''pages'' (Some samplePages)
     = [\<lparr>route_path = ''/index'', route_file = ''pages/index.tsx''\<rparr>,
        \<lparr>route_path = ''/users/:id'', route_file = ''pages/users/[id].tsx''\<rparr>,
        \<lparr>route_path = ''/users'', route_file = ''pages/users/index.tsx''\<rparr>]"
  by (simp add: pagesRoutes_def findFiles_samplePages relativeTo_def deriveRoute_users_id
      deriveRoute_nested_index deriveRoute_index)

section \<open>Verification: naming of generated test files\<close>

declare decimal.simps [simp del]

lemma decimal_small: "n < 10 \<Longrightarrow> decimal n = [''0123456789'' ! n]"
  by (simp add: decimal.simps)

lemma decimal_large:
  "\<not> n < 10 \<Longrightarrow> decimal n = decimal (n div 10) @ [''0123456789'' ! (n mod 10)]"
  by (subst decimal.simps) simp

lemma toLowerCase_e2e: "toLowerCase ''e2e'' = ''e2e''"
  by code_simp

lemma slug_flow: "slug ''My Login Flow'' = ''my-login-flow''"
  by code_simp

lemma slug_login_js: "slug ''Login.spec.js'' = ''login.spec.js''"
  by code_simp

lemma slug_login_ts: "slug ''Login.spec.ts'' = ''login.spec.ts''"
  by code_simp

lemma decimal_sample: "decimal 1700000000123 = ''1700000000123''"
  by (simp add: decimal_small decimal_large)

lemma joinPath_inject [simp]: "joinPath d a = joinPath d b \<longleftrightarrow> a = b"
  by (simp add: joinPath_def)

lemma joinPath_neq_dir [simp]: "joinPath d a \<noteq> d"
  by (simp add: joinPath_def)

lemma altFileNameOf_neq_slug [simp]: "altFileNameOf n now \<noteq> slug n @ ''.spec.ts''"
  by (simp add: altFileNameOf_def)

lemma existsSync_mkdirSync:
  "existsSync (joinPath d a) (w\<lparr>dirs := insert d (dirs w)\<rparr>) = existsSync (joinPath d a) w"
  by (simp add: existsSync_def)

lemma generateTest_files:
  assumes "generateTest testType testName info cwd now w = Inr w'"
  shows "files w' = (files w)
     (joinPath (testDirOf testType cwd w)
        (if existsSync (joinPath (testDirOf testType cwd w) (fileNameOf testName)) w
         then altFileNameOf testName now else fileNameOf testName)
      \<mapsto> generateTestContent testType testName info)"
  using assms
  by (auto simp: generateTest_def Let_def writeFileSync_def existsSync_mkdirSync
      mkdirSync_def split: if_splits)

text \<open>
  C6, amended. For a test name that does not contain \<open>.spec.\<close>, a successful run of
  generateTest writes exactly one file. If nothing exists at \<open>slug.spec.ts\<close> in the
  test directory, that file is written. If something exists there and no file exists at
  \<open>slug-timestamp.spec.ts\<close>, this second file is written. In both cases the file
  written did not exist before, and every file that existed before keeps its contents:
  no existing test file is overwritten.
\<close>

theorem generateTest_slug_naming:
  assumes "\<not> stringIncludes testName ''.spec.''"
    and "generateTest testType testName info cwd now w = Inr w'"
    and "existsSync (joinPath (testDirOf testType cwd w) (slug testName @ ''.spec.ts'')) w
         \<longrightarrow> files w (joinPath (testDirOf testType cwd w)
                        (slug testName @ ''-'' @ decimal now @ ''.spec.ts'')) = None"
  shows "let dir = testDirOf testType cwd w;
             first = joinPath dir (slug testName @ ''.spec.ts'');
             second = joinPath dir (slug testName @ ''-'' @ decimal now @ ''.spec.ts'');
             written = (if existsSync first w then second else first)
         in files w written = None
            \<and> files w' = (files w)(written \<mapsto> generateTestContent testType testName info)
            \<and> (\<forall>p c. files w p = Some c \<longrightarrow> files w' p = Some c)"
proof -
  let ?dir = "testDirOf testType cwd w"
  let ?first = "joinPath ?dir (slug testName @ ''.spec.ts'')"
  let ?second = "joinPath ?dir (slug testName @ ''-'' @ decimal now @ ''.spec.ts'')"
  let ?written = "if existsSync ?first w then ?second else ?first"
  have name: "fileNameOf testName = slug testName @ ''.spec.ts''"
    using assms(1) by (simp add: fileNameOf_def)
  have new: "files w ?written = None"
    using assms(3) by (simp add: existsSync_def)
  have upd: "files w' = (files w)(?written \<mapsto> generateTestContent testType testName info)"
    using generateTest_files [OF assms(2)] by (simp add: name altFileNameOf_def)
  have keep: "files w' p = Some c" if "files w p = Some c" for p c
  proof -
    have "p \<noteq> ?written" using that new by auto
    then show ?thesis using upd that by simp
  qed
  show ?thesis
    unfolding Let_def using new upd keep by blast
qed

text \<open>
  The file name of a test name that contains \<open>.spec.\<close>: when nothing exists under that
  name in the test directory, the file is written under the given name, unchanged.
\<close>

lemma generateTest_spec_name_free:
  assumes "stringIncludes testName ''.spec.''"
    and "\<not> existsSync (joinPath (testDirOf testType cwd w) testName) w"
    and "generateTest testType testName info cwd now w = Inr w'"
  shows "files w' = (files w)(joinPath (testDirOf testType cwd w) testName
           \<mapsto> generateTestContent testType testName info)"
  using generateTest_files [OF assms(3)] assms(1,2)
  by (simp add: fileNameOf_def)

lemma testDirOf_e2e:
  "existsSync ''/p/src/e2e'' w \<Longrightarrow> testDirOf ''e2e'' ''/p'' w = ''/p/src/e2e''"
  by (simp add: testDirOf_def basePathOf_def targetDirOf_def toLowerCase_e2e joinPath_def)

lemma basePathOf_p:
  "existsSync ''/p/src/e2e'' w \<Longrightarrow> basePathOf ''/p'' w = ''src''"
  by (simp add: basePathOf_def joinPath_def)

lemma generateTest_in_p:
  assumes "''/p/src/e2e'' \<in> dirs w"
  shows "generateTest ''e2e'' n info ''/p'' now w =
     writeFileSync ''/p/src/e2e''
       (if existsSync (joinPath ''/p/src/e2e'' (fileNameOf n)) w
        then altFileNameOf n now else fileNameOf n)
       (generateTestContent ''e2e'' n info) w"
proof -
  have e: "existsSync ''/p/src/e2e'' w"
    using assms by (simp add: existsSync_def)
  show ?thesis
    unfolding generateTest_def Let_def testDirOf_e2e [OF e] basePathOf_p [OF e]
    by (simp add: e)
qed

lemma fileNameOf_flow: "fileNameOf ''My Login Flow'' = ''my-login-flow.spec.ts''"
  by (simp add: fileNameOf_def stringIncludes_def sublist_code slug_flow)

lemma altFileNameOf_flow:
  "altFileNameOf ''My Login Flow'' 1700000000123 = ''my-login-flow-1700000000123.spec.ts''"
  by (simp add: altFileNameOf_def slug_flow decimal_sample)

lemma fileNameOf_login_js: "fileNameOf ''Login.spec.js'' = ''Login.spec.js''"
  by (simp add: fileNameOf_def stringIncludes_def sublist_code)

lemma fileNameOf_login_ts: "fileNameOf ''Login.spec.ts'' = ''Login.spec.ts''"
  by (simp add: fileNameOf_def stringIncludes_def sublist_code)

lemma altFileNameOf_login_ts: "altFileNameOf ''Login.spec.ts'' 5 = ''login.spec.ts-5.spec.ts''"
  by (simp add: altFileNameOf_def slug_login_ts decimal_small)

lemma generateTest_flow_first:
  "generateTest ''e2e'' ''My Login Flow'' None ''/p'' 1700000000000 emptyProject
     = Inr (emptyProject\<lparr>files := [''/p/src/e2e/my-login-flow.spec.ts''
            \<mapsto> generateTestContent ''e2e'' ''My Login Flow'' None]\<rparr>)"
  by (subst generateTest_in_p)
     (simp_all add: emptyProject_def fileNameOf_flow existsSync_def writeFileSync_def joinPath_def)

lemma generateTest_flow_again:
  "generateTest ''e2e'' ''My Login Flow'' None ''/p'' 1700000000123 flowProject
     = Inr (flowProject\<lparr>files := (files flowProject)
         (''/p/src/e2e/my-login-flow-1700000000123.spec.ts''
            \<mapsto> generateTestContent ''e2e'' ''My Login Flow'' None)\<rparr>)"
  by (subst generateTest_in_p)
     (simp_all add: flowProject_def fileNameOf_flow altFileNameOf_flow existsSync_def
       writeFileSync_def joinPath_def)

lemma generateTest_login_js:
  "generateTest ''e2e'' ''Login.spec.js'' None ''/p'' 5 emptyProject
     = Inr (emptyProject\<lparr>files := [''/p/src/e2e/Login.spec.js''
            \<mapsto> generateTestContent ''e2e'' ''Login.spec.js'' None]\<rparr>)"
  by (subst generateTest_in_p)
     (simp_all add: emptyProject_def fileNameOf_login_js existsSync_def writeFileSync_def
       joinPath_def)

lemma generateTest_login_ts:
  "generateTest ''e2e'' ''Login.spec.ts'' None ''/p'' 5 loginProject
     = Inr (loginProject\<lparr>files := (files loginProject)
         (''/p/src/e2e/login.spec.ts-5.spec.ts''
            \<mapsto> generateTestContent ''e2e'' ''Login.spec.ts'' None)\<rparr>)"
  by (subst generateTest_in_p)
     (simp_all add: loginProject_def fileNameOf_login_ts altFileNameOf_login_ts existsSync_def
       writeFileSync_def joinPath_def)

text \<open>
  C6, as stated for every test name, fails at \<open>Login.spec.js\<close>: in a project without
  test files the run writes \<open>Login.spec.js\<close>, which is not the slug of the name
  followed by \<open>.spec.ts\<close>.
\<close>

theorem generateTest_slug_counterexample:
  "generateTest ''e2e'' ''Login.spec.js'' None ''/p'' 5 emptyProject
     = Inr (emptyProject\<lparr>files := [''/p/src/e2e/Login.spec.js''
            \<mapsto> generateTestContent ''e2e'' ''Login.spec.js'' None]\<rparr>)
   \<and> ''Login.spec.js'' \<noteq> slug ''Login.spec.js'' @ ''.spec.ts''"
  by (simp add: generateTest_login_js slug_login_js)

text \<open>
  The scenario of the specification: \<open>My Login Flow\<close> generated again while
  \<open>my-login-flow.spec.ts\<close> exists.
\<close>

theorem generateTest_slug_naming_witness:
  "\<not> stringIncludes ''My Login Flow'' ''.spec.''
   \<and> generateTest ''e2e'' ''My Login Flow'' None ''/p'' 1700000000123 flowProject
       = Inr (flowProject\<lparr>files := (files flowProject)
           (''/p/src/e2e/my-login-flow-1700000000123.spec.ts''
              \<mapsto> generateTestContent ''e2e'' ''My Login Flow'' None)\<rparr>)
   \<and> existsSync ''/p/src/e2e/my-login-flow.spec.ts'' flowProject
   \<and> files flowProject ''/p/src/e2e/my-login-flow-1700000000123.spec.ts'' = None
   \<and> files (flowProject\<lparr>files := (files flowProject)
           (''/p/src/e2e/my-login-flow-1700000000123.spec.ts''
              \<mapsto> generateTestContent ''e2e'' ''My Login Flow'' None)\<rparr>)
         ''/p/src/e2e/my-login-flow.spec.ts'' = Some ''first version''"
proof -
  let ?after = "flowProject\<lparr>files := (files flowProject)
           (''/p/src/e2e/my-login-flow-1700000000123.spec.ts''
              \<mapsto> generateTestContent ''e2e'' ''My Login Flow'' None)\<rparr>"
  have h: "\<not> stringIncludes ''My Login Flow'' ''.spec.''"
    by (simp add: stringIncludes_def sublist_code)
  have e: "existsSync ''/p/src/e2e'' flowProject"
    by (simp add: existsSync_def flowProject_def)
  have x: "existsSync ''/p/src/e2e/my-login-flow.spec.ts'' flowProject"
    by (simp add: existsSync_def flowProject_def)
  have f: "files flowProject ''/p/src/e2e/my-login-flow.spec.ts'' = Some ''first version''"
    by (simp add: flowProject_def)
  have n: "files flowProject ''/p/src/e2e/my-login-flow-1700000000123.spec.ts'' = None"
    by (simp add: flowProject_def)
  have free: "existsSync (joinPath (testDirOf ''e2e'' ''/p'' flowProject)
        (slug ''My Login Flow'' @ ''.spec.ts'')) flowProject
      \<longrightarrow> files flowProject (joinPath (testDirOf ''e2e'' ''/p'' flowProject)
        (slug ''My Login Flow'' @ ''-'' @ decimal 1700000000123 @ ''.spec.ts'')) = None"
    unfolding testDirOf_e2e [OF e] slug_flow decimal_sample
    using n by (simp add: joinPath_def)
  from generateTest_slug_naming [OF h generateTest_flow_again free]
  have "\<forall>p c. files flowProject p = Some c \<longrightarrow> files ?after p = Some c"
    unfolding Let_def by blast
  with f have "files ?after ''/p/src/e2e/my-login-flow.spec.ts'' = Some ''first version''"
    by blast
  with h x n generateTest_flow_again show ?thesis by blast
qed

text \<open>
  C9 at \<open>Login.spec.ts\<close> with a file of that name present. The name contains
  \<open>.spec.\<close>, yet the file written is \<open>login.spec.ts-5.spec.ts\<close>: the alternate
  name is computed from the lower-cased, hyphenated name for every test name, without the
  test for \<open>.spec.\<close> that the first file name has.
\<close>

theorem generateTest_spec_name_collision:
  "stringIncludes ''Login.spec.ts'' ''.spec.''
   \<and> generateTest ''e2e'' ''Login.spec.ts'' None ''/p'' 5 loginProject
     = Inr (loginProject\<lparr>files := (files loginProject)
         (''/p/src/e2e/login.spec.ts-5.spec.ts''
            \<mapsto> generateTestContent ''e2e'' ''Login.spec.ts'' None)\<rparr>)
   \<and> ''login.spec.ts-5.spec.ts'' \<noteq> ''Login.spec.ts''"
  by (simp add: generateTest_login_ts stringIncludes_def sublist_code)

section \<open>Verification: placeholder substitution\<close>

lemma firstMatch_Some:
  "firstMatch tv s = Some (t, v) \<Longrightarrow> (t, v) \<in> set tv \<and> t \<noteq> [] \<and> prefix t s"
  by (induction tv) (auto split: if_splits)

lemma expandReplacement_literal:
  "CHR ''$'' \<notin> set r \<Longrightarrow> expandReplacement r m b a = r"
  by (induction r m b a rule: expandReplacement.induct) auto

lemma replaceGlobal_literal:
  "CHR ''$'' \<notin> set v \<Longrightarrow> replaceGlobal t v b s = replaceLiteral t v s"
  by (induction t v b s rule: replaceGlobal.induct) (auto simp: expandReplacement_literal)

lemma jsReplaceAll_literal:
  "CHR ''$'' \<notin> set v \<Longrightarrow> jsReplaceAll t v s = replaceLiteral t v s"
  by (simp add: jsReplaceAll_def replaceGlobal_literal)

lemma firstMatch_None:
  "firstMatch tv s = None \<longleftrightarrow> (\<forall>p \<in> set tv. \<not> (fst p \<noteq> [] \<and> prefix (fst p) s))"
  by (induction tv s rule: firstMatch.induct) auto

lemma firstMatch_append:
  "firstMatch (tv @ [(t, v)]) s =
     (case firstMatch tv s of Some r \<Rightarrow> Some r
      | None \<Rightarrow> if t \<noteq> [] \<and> prefix t s then Some (t, v) else None)"
  by (induction tv) auto

lemma replaceLiteral_skip:
  "t \<noteq> [] \<Longrightarrow> hd t \<notin> set u \<Longrightarrow> replaceLiteral t v (u @ Y) = u @ replaceLiteral t v Y"
proof (induction u)
  case Nil
  then show ?case by simp
next
  case (Cons a u)
  then have "\<not> prefix t (a # u @ Y)"
    by (cases t) auto
  with Cons show ?case by simp
qed

lemma replaceLiteral_token:
  assumes "t \<noteq> []"
  shows "replaceLiteral t v (t @ Z) = v @ replaceLiteral t v Z"
proof -
  obtain a t' where t: "t = a # t'" using assms by (cases t) auto
  have "replaceLiteral t v (a # t' @ Z) = v @ replaceLiteral t v (drop (length t) (a # t' @ Z))"
    using t by simp
  then show ?thesis using t by simp
qed

lemma substituteAll_skip:
  "(\<And>k. k < length u \<Longrightarrow> firstMatch tv (drop k u @ Y) = None)
   \<Longrightarrow> substituteAll tv (u @ Y) = u @ substituteAll tv Y"
proof (induction u)
  case Nil
  then show ?case by simp
next
  case (Cons a u)
  have "firstMatch tv (drop 0 (a # u) @ Y) = None"
    by (rule Cons.prems) simp
  then have h: "firstMatch tv (a # u @ Y) = None" by simp
  have "\<And>k. k < length u \<Longrightarrow> firstMatch tv (drop k u @ Y) = None"
  proof -
    fix k assume "k < length u"
    then have "firstMatch tv (drop (Suc k) (a # u) @ Y) = None"
      by (intro Cons.prems) simp
    then show "firstMatch tv (drop k u @ Y) = None" by simp
  qed
  then have "substituteAll tv (u @ Y) = u @ substituteAll tv Y"
    by (rule Cons.IH)
  with h show ?case by simp
qed

lemma tokenShaped_nonempty: "tokenShaped t \<Longrightarrow> t \<noteq> [] \<and> hd t = CHR ''{''"
  by (cases t) (auto simp: tokenShaped_def)

lemma tokenShaped_inner:
  assumes "tokenShaped t" and "tokenShaped t'" and "1 \<le> k" and "k < length t"
  shows "\<not> prefix t' (drop k t @ Y)"
proof -
  obtain w where t: "t = CHR ''{'' # CHR ''{'' # w" and w: "CHR ''{'' \<notin> set w" "w \<noteq> []"
    using assms(1) by (cases t; cases "tl t") (auto simp: tokenShaped_def)
  obtain w' where t': "t' = CHR ''{'' # CHR ''{'' # w'"
    using assms(2) by (cases t'; cases "tl t'") (auto simp: tokenShaped_def)
  show ?thesis
  proof (cases "k = 1")
    case True
    then have "drop k t @ Y = CHR ''{'' # w @ Y" using t by simp
    moreover obtain a w2 where "w = a # w2" "a \<noteq> CHR ''{''"
      using w by (cases w) auto
    ultimately show ?thesis using t' by simp
  next
    case False
    then obtain j where k: "k = Suc (Suc j)" using assms(3)
      by (metis One_nat_def Suc_le_D not0_implies_Suc)
    then have d: "drop k t = drop j w" using t by simp
    have "j < length w" using assms(4) k t by simp
    then obtain a r where ar: "drop j w = a # r"
      by (metis Cons_nth_drop_Suc)
    then have "a \<in> set w"
      by (metis in_set_dropD list.set_intros(1))
    then have "a \<noteq> CHR ''{''" using w by auto
    then show ?thesis using d ar t' by simp
  qed
qed

lemma suffix_last:
  assumes "suffix p t" and "p \<noteq> []"
  shows "last p = last t"
  using assms by (auto simp: suffix_def)

lemma substituteAll_prefix:
  assumes shape: "last t = CHR ''}''"
  shows "\<forall>(t', v') \<in> set tv. CHR ''}'' \<notin> set v' \<and> \<not> sublist v' t
    \<Longrightarrow> suffix p t \<Longrightarrow> prefix p (substituteAll tv s) \<Longrightarrow> prefix p s"
proof (induction tv s arbitrary: p rule: substituteAll.induct)
  case (1 tv)
  then show ?case by simp
next
  case (2 tv c cs)
  note clean = "2.prems"(1) and sfx = "2.prems"(2) and pre = "2.prems"(3)
  show ?case
  proof (cases p)
    case Nil
    then show ?thesis by simp
  next
    case (Cons y q)
    show ?thesis
    proof (cases "firstMatch tv (c # cs)")
      case None
      then have "substituteAll tv (c # cs) = c # substituteAll tv cs" by simp
      with pre Cons have yc: "y = c" and pq: "prefix q (substituteAll tv cs)"
        by auto
      have "suffix q t"
        using sfx Cons by (metis suffix_ConsD)
      then have "prefix q cs"
        using "2.IH"(1) [OF None clean _ pq] by simp
      with yc Cons show ?thesis by simp
    next
      case (Some r)
      obtain t' v' where r: "r = (t', v')" by (cases r)
      have mem: "(t', v') \<in> set tv"
        using Some r firstMatch_Some by blast
      have sub: "substituteAll tv (c # cs) = v' @ substituteAll tv (drop (length t') (c # cs))"
        using Some r by simp
      from pre sub
      have "prefix p v' \<or> (\<exists>us. p = v' @ us)"
        by (auto simp: prefix_append)
      then show ?thesis
      proof
        assume "prefix p v'"
        then have "last p \<in> set v'"
          using Cons by (metis last_in_set list.distinct(1) set_mono_prefix subsetD)
        moreover have "last p = CHR ''}''"
          using suffix_last [OF sfx] Cons shape by simp
        ultimately have False using clean mem by auto
        then show ?thesis ..
      next
        assume "\<exists>us. p = v' @ us"
        then have "sublist v' p" by (auto simp: sublist_def intro: exI[of _ "[]"])
        then have "sublist v' t"
          using sfx by (metis sublist_order.order_trans suffix_imp_sublist)
        then have False using clean mem by auto
        then show ?thesis ..
      qed
    qed
  qed
qed

lemma substitute_step:
  assumes shapes: "\<forall>(t', v') \<in> set tv. tokenShaped t'"
    and clean: "\<forall>(t', v') \<in> set tv. CHR ''{'' \<notin> set v' \<and> CHR ''}'' \<notin> set v' \<and> \<not> sublist v' t"
    and shape: "tokenShaped t"
  shows "replaceLiteral t v (substituteAll tv c) = substituteAll (tv @ [(t, v)]) c"
proof (induction "length c" arbitrary: c rule: less_induct)
  case less
  have t: "t \<noteq> []" "hd t = CHR ''{''"
    using shape tokenShaped_nonempty by auto
  show ?case
  proof (cases c)
    case Nil
    then show ?thesis by simp
  next
    case (Cons x cs)
    show ?thesis
    proof (cases "firstMatch tv c")
      case (Some r)
      obtain t' v' where r: "r = (t', v')" by (cases r)
      have mem: "(t', v') \<in> set tv" and t': "t' \<noteq> []"
        using Some r firstMatch_Some by blast+
      let ?c' = "drop (length t') c"
      have len: "length ?c' < length c"
        using t' Cons by simp
      have v': "hd t \<notin> set v'"
        using clean mem t by auto
      have "replaceLiteral t v (substituteAll tv c)
          = replaceLiteral t v (v' @ substituteAll tv ?c')"
        using Some r Cons by simp
      also have "\<dots> = v' @ replaceLiteral t v (substituteAll tv ?c')"
        using t(1) v' by (rule replaceLiteral_skip)
      also have "\<dots> = v' @ substituteAll (tv @ [(t, v)]) ?c'"
        using less [OF len] by simp
      also have "\<dots> = substituteAll (tv @ [(t, v)]) c"
        using Some r Cons by (simp add: firstMatch_append)
      finally show ?thesis .
    next
      case None
      show ?thesis
      proof (cases "prefix t c")
        case True
        then obtain c' where c: "c = t @ c'"
          by (auto simp: prefix_def)
        have len: "length c' < length c"
          using c t by simp
        have skip: "firstMatch tv (drop k t @ c') = None" if "k < length t" for k
        proof (cases "k = 0")
          case True
          then show ?thesis using None c by simp
        next
          case False
          then have "\<not> prefix (fst p) (drop k t @ c')" if "p \<in> set tv" for p
            using tokenShaped_inner [OF shape _ _ \<open>k < length t\<close>] shapes that
            by (cases p) auto
          then show ?thesis
            by (simp add: firstMatch_None)
        qed
        have "replaceLiteral t v (substituteAll tv c) = replaceLiteral t v (t @ substituteAll tv c')"
          unfolding c using substituteAll_skip [of t tv c'] skip by simp
        also have "\<dots> = v @ replaceLiteral t v (substituteAll tv c')"
          using t(1) by (rule replaceLiteral_token)
        also have "\<dots> = v @ substituteAll (tv @ [(t, v)]) c'"
          using less [OF len] by simp
        also have "\<dots> = substituteAll (tv @ [(t, v)]) c"
        proof -
          have d: "drop (length t) (x # cs) = c'"
            using c Cons by (metis append_eq_conv_conj)
          have "firstMatch (tv @ [(t, v)]) (x # cs) = Some (t, v)"
            using None True t(1) Cons by (simp add: firstMatch_append)
          then show ?thesis
            unfolding Cons by (simp add: d)
        qed
        finally show ?thesis .
      next
        case False
        have len: "length cs < length c"
          using Cons by simp
        have S: "substituteAll tv c = x # substituteAll tv cs"
          using None Cons by simp
        have "\<not> prefix t (substituteAll tv c)"
        proof
          assume "prefix t (substituteAll tv c)"
          moreover have "\<forall>(t', v') \<in> set tv. CHR ''}'' \<notin> set v' \<and> \<not> sublist v' t"
            using clean by auto
          moreover have "last t = CHR ''}''"
            using shape by (simp add: tokenShaped_def)
          ultimately have "prefix t c"
            using substituteAll_prefix [of t tv t c] by simp
          with False show False ..
        qed
        then have "replaceLiteral t v (substituteAll tv c)
            = x # replaceLiteral t v (substituteAll tv cs)"
          unfolding S by simp
        also have "\<dots> = x # substituteAll (tv @ [(t, v)]) cs"
          using less [OF len] by simp
        also have "\<dots> = substituteAll (tv @ [(t, v)]) c"
          using None False Cons by (simp add: firstMatch_append)
        finally show ?thesis .
      qed
    qed
  qed
qed

lemma substituteAll_Nil [simp]: "substituteAll [] c = c"
  by (induction c) auto

lemma replace_chain:
  assumes "\<forall>(t, v) \<in> set (tv @ rest). tokenShaped t \<and> CHR ''{'' \<notin> set v \<and> CHR ''}'' \<notin> set v
             \<and> (\<forall>(t', v') \<in> set (tv @ rest). \<not> sublist v t')"
  shows "foldl (\<lambda>s (t, v). replaceLiteral t v s) (substituteAll tv c) rest
       = substituteAll (tv @ rest) c"
  using assms
proof (induction rest arbitrary: tv)
  case Nil
  then show ?case by simp
next
  case (Cons p rest)
  obtain t v where p: "p = (t, v)" by (cases p)
  have shapes: "\<forall>(t', v') \<in> set tv. tokenShaped t'"
    using Cons.prems by auto
  have shape: "tokenShaped t"
    using Cons.prems p by auto
  have clean: "\<forall>(t', v') \<in> set tv. CHR ''{'' \<notin> set v' \<and> CHR ''}'' \<notin> set v' \<and> \<not> sublist v' t"
    using Cons.prems p by fastforce
  have step: "replaceLiteral t v (substituteAll tv c) = substituteAll (tv @ [(t, v)]) c"
    using shapes clean shape by (rule substitute_step)
  have "foldl (\<lambda>s (t, v). replaceLiteral t v s) (substituteAll (tv @ [(t, v)]) c) rest
      = substituteAll ((tv @ [(t, v)]) @ rest) c"
    using Cons.prems p by (intro Cons.IH) simp
  then show ?case
    using step p by simp
qed

lemma placeholders_shaped: "\<forall>t \<in> set placeholders. tokenShaped t"
  by (simp add: placeholders_def tokenShaped_def PROJECT_NAME_def BASE_URL_def API_URL_def
      ADMIN_EMAIL_def ADMIN_PASSWORD_def USER_EMAIL_def USER_PASSWORD_def)

lemma substitutions_tokens: "map fst (substitutions cfg) = placeholders"
  by (simp add: substitutions_def placeholders_def)

lemma replacePlaceholders_fold:
  assumes "\<forall>(t, v) \<in> set (substitutions cfg). CHR ''$'' \<notin> set v"
  shows "replacePlaceholders cfg content
       = foldl (\<lambda>s (t, v). replaceLiteral t v s) content (substitutions cfg)"
  using assms
  by (simp add: replacePlaceholders_def substitutions_def jsReplaceAll_literal)

text \<open>
  C7, amended. For a file whose name ends in one of the seven extensions and a
  configuration all of whose values are clean (no dollar sign, no brace, not a part of a
  placeholder token, hence not empty), the substitution of createProject replaces every
  occurrence of each of the seven tokens by its value and copies all other text,
  unrecognized tokens included.
\<close>

theorem processFile_substitutes:
  assumes "list_ex (endsWith file) processedExtensions" and "cleanConfig cfg"
  shows "processFile file cfg content = substituteAll (substitutions cfg) content"
proof -
  have cv: "cleanValue v" if "(t, v) \<in> set (substitutions cfg)" for t v
    using assms(2) that by (auto simp: cleanConfig_def list_all_iff)
  have tok: "t \<in> set placeholders" if "(t, v) \<in> set (substitutions cfg)" for t v
    using that substitutions_tokens [of cfg] by (metis fst_conv image_eqI list.set_map)
  have dollar: "\<forall>(t, v) \<in> set (substitutions cfg). CHR ''$'' \<notin> set v"
    using cv by (auto simp: cleanValue_def)
  have good: "\<forall>(t, v) \<in> set ([] @ substitutions cfg). tokenShaped t \<and> CHR ''{'' \<notin> set v
      \<and> CHR ''}'' \<notin> set v \<and> (\<forall>(t', v') \<in> set ([] @ substitutions cfg). \<not> sublist v t')"
    using cv tok placeholders_shaped by (fastforce simp: cleanValue_def list_all_iff)
  have "replacePlaceholders cfg content
      = foldl (\<lambda>s (t, v). replaceLiteral t v s) (substituteAll [] content) (substitutions cfg)"
    using replacePlaceholders_fold [OF dollar] by simp
  also have "\<dots> = substituteAll ([] @ substitutions cfg) content"
    using good by (rule replace_chain)
  finally show ?thesis
    using assms(1) by (simp add: processFile_def)
qed

lemma ext_ts: "list_ex (endsWith ''src/config/environments.ts'') processedExtensions"
  by (simp add: processedExtensions_def endsWith_def suffix_to_prefix)

lemma sampleConfig_clean: "cleanConfig sampleConfig"
  by (simp add: cleanConfig_def substitutions_def sampleConfig_def orElse_def cleanValue_def
      placeholders_def PROJECT_NAME_def BASE_URL_def API_URL_def
      ADMIN_EMAIL_def ADMIN_PASSWORD_def USER_EMAIL_def USER_PASSWORD_def sublist_code)

lemma sample_substituteAll:
  "substituteAll (substitutions sampleConfig) ''web: {{baseUrl}}, beta: {{baseUrl}}/{{beta}}''
     = ''web: http://localhost:3000, beta: http://localhost:3000/{{beta}}''"
  by (simp add: substitutions_def sampleConfig_def orElse_def
      PROJECT_NAME_def BASE_URL_def API_URL_def
      ADMIN_EMAIL_def ADMIN_PASSWORD_def USER_EMAIL_def USER_PASSWORD_def)

text \<open>The base-URL token twice, next to an unrecognized token.\<close>

theorem processFile_substitutes_witness:
  "list_ex (endsWith ''src/config/environments.ts'') processedExtensions
   \<and> cleanConfig sampleConfig
   \<and> processFile ''src/config/environments.ts'' sampleConfig
         ''web: {{baseUrl}}, beta: {{baseUrl}}/{{beta}}''
       = ''web: http://localhost:3000, beta: http://localhost:3000/{{beta}}''"
proof -
  have "processFile ''src/config/environments.ts'' sampleConfig
         ''web: {{baseUrl}}, beta: {{baseUrl}}/{{beta}}''
       = ''web: http://localhost:3000, beta: http://localhost:3000/{{beta}}''"
    using processFile_substitutes [OF ext_ts sampleConfig_clean]
    by (simp only: sample_substituteAll)
  with ext_ts sampleConfig_clean show ?thesis by blast
qed

lemma processFile_other_extension:
  "\<not> list_ex (endsWith file) processedExtensions \<Longrightarrow> processFile file cfg content = content"
  by (simp add: processFile_def)

lemma chain_substituteAll:
  "substituteAll (substitutions (sampleConfig\<lparr>projectName := ''{{baseUrl}}''\<rparr>))
      ''name: {{projectName}}''
     = ''name: {{baseUrl}}''"
  by (simp add: substitutions_def sampleConfig_def orElse_def
      PROJECT_NAME_def BASE_URL_def API_URL_def
      ADMIN_EMAIL_def ADMIN_PASSWORD_def USER_EMAIL_def USER_PASSWORD_def)

lemma chain_processFile:
  "processFile ''package.json'' (sampleConfig\<lparr>projectName := ''{{baseUrl}}''\<rparr>)
      ''name: {{projectName}}''
     = ''name: http://localhost:3000''"
  by (simp add: processFile_def processedExtensions_def endsWith_def suffix_to_prefix
      replacePlaceholders_def jsReplaceAll_def sampleConfig_def orElse_def
      PROJECT_NAME_def BASE_URL_def API_URL_def
      ADMIN_EMAIL_def ADMIN_PASSWORD_def USER_EMAIL_def USER_PASSWORD_def)

text \<open>
  C7, as stated for every configuration, fails for a value that contains a token replaced
  later in the chain: with the project name \<open>{{baseUrl}}\<close> the occurrence of the
  project-name token ends up as the base URL, not as the configured project name.
\<close>

theorem processFile_chain_counterexample:
  "processFile ''package.json'' (sampleConfig\<lparr>projectName := ''{{baseUrl}}''\<rparr>)
      ''name: {{projectName}}''
     = ''name: http://localhost:3000''
   \<and> substituteAll (substitutions (sampleConfig\<lparr>projectName := ''{{baseUrl}}''\<rparr>))
      ''name: {{projectName}}''
     = ''name: {{baseUrl}}''"
  using chain_processFile chain_substituteAll by (rule conjI)

text \<open>
  C10 at the admin password \<open>pa$$word\<close>: the replacement string is expanded, the two
  dollar signs become one, and the text inserted into the file is \<open>pa$word\<close>.
\<close>

theorem processFile_dollar_value:
  "processFile ''src/models/user.model.ts''
      (sampleConfig\<lparr>adminPassword := Some ''pa$$word''\<rparr>) ''password: '{{adminPassword}}',''
     = ''password: 'pa$word',''"
  by (simp add: processFile_def processedExtensions_def endsWith_def suffix_to_prefix
      replacePlaceholders_def jsReplaceAll_def sampleConfig_def orElse_def
      PROJECT_NAME_def BASE_URL_def API_URL_def
      ADMIN_EMAIL_def ADMIN_PASSWORD_def USER_EMAIL_def USER_PASSWORD_def)

section \<open>Verification: the websocket scan\<close>

lemma whileExec_returns:
  assumes "whileExec p f c l a = Some r"
  shows "\<not> (p = IdentifierPresence \<and> identifierPresent c)"
proof (rule whileExec.raw_induct
    [where P = "\<lambda>p f c l a r. \<not> (p = IdentifierPresence \<and> identifierPresent c)", OF _ assms])
  fix w :: "pattern \<Rightarrow> string \<Rightarrow> string \<Rightarrow> nat \<Rightarrow> socketImplementation list
      \<Rightarrow> (nat \<times> socketImplementation list) option"
  fix p f c l a r
  assume IH: "\<And>p' f' c' l' a' y. w p' f' c' l' a' = Some y
      \<Longrightarrow> \<not> (p' = IdentifierPresence \<and> identifierPresent c')"
    and eq: "(case exec p c l of
        (None, li) \<Rightarrow> Some (li, a)
      | (Some g, li) \<Rightarrow>
          w p f c li (if g \<noteq> [] then a @ [\<lparr>impl_file = f, impl_url = Some g\<rparr>] else a))
      = Some r"
  show "\<not> (p = IdentifierPresence \<and> identifierPresent c)"
  proof
    assume h: "p = IdentifierPresence \<and> identifierPresent c"
    then obtain i e g where "findMatch IdentifierPresence c 0 = Some (i, e, g)"
      by (auto simp: identifierPresent_def)
    then have "exec p c l = (Some g, l)"
      using h by (simp add: exec_def isGlobal_def)
    with eq have "w p f c l
        (if g \<noteq> [] then a @ [\<lparr>impl_file = f, impl_url = Some g\<rparr>] else a) = Some r"
      by simp
    then have "\<not> (p = IdentifierPresence \<and> identifierPresent c)"
      by (rule IH)
    with h show False by blast
  qed
qed

lemma whileExec_identifier_diverges:
  assumes "identifierPresent content"
  shows "whileExec IdentifierPresence file content li acc = None"
proof (cases "whileExec IdentifierPresence file content li acc")
  case None
  then show ?thesis .
next
  case (Some r)
  then show ?thesis
    using whileExec_returns assms by blast
qed

lemma scanPatterns_identifier_diverges:
  "identifierPresent content \<Longrightarrow> scanPatterns socketPatterns file content st = None"
  by (simp add: socketPatterns_def hasExec_def whileExec_identifier_diverges)

lemma scanFiles_identifier_diverges:
  assumes "file \<in> set paths" and "contents file = Some content" and "identifierPresent content"
  shows "scanFiles paths contents st = None"
  using assms(1)
proof (induction paths arbitrary: st)
  case Nil
  then show ?case by simp
next
  case (Cons f paths)
  show ?case
  proof (cases "f = file")
    case True
    then show ?thesis
      using assms(2,3) by (simp add: scanPatterns_identifier_diverges)
  next
    case False
    then have "file \<in> set paths" using Cons.prems by simp
    then have "scanFiles paths contents st' = None" for st'
      by (rule Cons.IH)
    then show ?thesis
      by (simp split: option.splits)
  qed
qed

text \<open>
  C3 fails on the code. If the content of one scanned file matches the first pattern, the
  scan never returns: the first pattern has no global flag, so every call of \<open>exec\<close>
  starts at index 0 and finds the same match, and the while loop does not end.
\<close>

theorem analyzeWebSockets_diverges:
  assumes "file \<in> set (findFiles appDir tree [''.js'', ''.ts'', ''.jsx'', ''.tsx''])"
    and "contents file = Some content"
    and "identifierPresent content"
  shows "analyzeWebSockets appDir tree contents pick manual info = None"
proof -
  have "scanFiles (findFiles appDir tree [''.js'', ''.ts'', ''.jsx'', ''.tsx'']) contents st = None"
    for st
    using assms by (rule scanFiles_identifier_diverges)
  then show ?thesis
    by (simp add: analyzeWebSockets_def)
qed






lemma findFiles_socketTree:
  "findFiles ''app'' (Some socketTree) [''.js'', ''.ts'', ''.jsx'', ''.tsx''] = [''app/client.js'']"
  by (simp add: socketTree_def joinPath_def endsWith_def suffix_to_prefix)

lemma identifierPresent_ws: "identifierPresent ''ws.send(1)''"
  unfolding identifierPresent_def by code_simp

text \<open>A project whose only source file is \<open>ws.send(1)\<close>.\<close>

theorem analyzeWebSockets_diverges_witness:
  "''app/client.js'' \<in> set (findFiles ''app'' (Some socketTree) [''.js'', ''.ts'', ''.jsx'', ''.tsx''])
   \<and> chattyContents ''app/client.js'' = Some ''ws.send(1)''
   \<and> identifierPresent ''ws.send(1)''
   \<and> analyzeWebSockets ''app'' (Some socketTree) chattyContents hd defaultSocketUrl emptyInfo = None"
proof -
  have m: "''app/client.js'' \<in> set (findFiles ''app'' (Some socketTree) [''.js'', ''.ts'', ''.jsx'', ''.tsx''])"
    by (simp add: findFiles_socketTree)
  have c: "chattyContents ''app/client.js'' = Some ''ws.send(1)''"
    by (simp add: chattyContents_def)
  from analyzeWebSockets_diverges
    [of "''app/client.js''" "''app''" "Some socketTree" chattyContents "''ws.send(1)''"
      hd defaultSocketUrl emptyInfo, OF m c identifierPresent_ws]
    m c identifierPresent_ws
  show ?thesis by blast
qed








subsection \<open>Scans that return\<close>

lemma matchLiteral_shorter:
  "matchLiteral lit s = Some r \<Longrightarrow> length r + length lit = length s"
  by (auto simp: matchLiteral_def prefix_def split: if_splits)

lemma length_tl_dropWhile: "length (tl (dropWhile P xs)) \<le> length xs"
  by (metis diff_le_self le_trans length_dropWhile_le length_tl)

lemma matchQuoted_shorter:
  "matchQuoted s = Some (g, rest) \<Longrightarrow> length rest < length s"
proof -
  assume "matchQuoted s = Some (g, rest)"
  then have s: "s \<noteq> []" and r: "rest = tl (dropWhile (\<lambda>c. \<not> isQuote c) (tl s))"
    by (auto simp: matchQuoted_def split: if_splits)
  have "length rest \<le> length (tl s)"
    unfolding r by (rule length_tl_dropWhile)
  then show ?thesis using s by (cases s) auto
qed

lemma matchCallTail_shorter:
  assumes "matchCallTail s = Some (g, rest)"
  shows "length rest < length s"
proof -
  from assms obtain r where r: "matchLiteral ''('' (dropWhile isSpace s) = Some r"
    and q: "matchQuoted (dropWhile isSpace r) = Some (g, rest)"
    by (auto simp: matchCallTail_def split: option.splits)
  have "length rest < length (dropWhile isSpace r)"
    using q by (rule matchQuoted_shorter)
  also have "\<dots> \<le> length r" by (rule length_dropWhile_le)
  also have "\<dots> \<le> length (dropWhile isSpace s)"
    using matchLiteral_shorter [OF r] by simp
  also have "\<dots> \<le> length s" by (rule length_dropWhile_le)
  finally show ?thesis .
qed

lemma matchNewWebSocket_shorter:
  assumes "matchNewWebSocket s = Some (g, rest)"
  shows "length rest < length s"
proof -
  from assms obtain r r' where r: "matchLiteral ''new'' s = Some r"
    and r': "matchLiteral ''WebSocket'' (dropWhile isSpace r) = Some r'"
    and t: "matchCallTail r' = Some (g, rest)"
    by (auto simp: matchNewWebSocket_def split: option.splits if_splits)
  have "length rest < length r'" using t by (rule matchCallTail_shorter)
  also have "\<dots> \<le> length (dropWhile isSpace r)"
    using matchLiteral_shorter [OF r'] by simp
  also have "\<dots> \<le> length r" by (rule length_dropWhile_le)
  also have "\<dots> \<le> length s"
    using matchLiteral_shorter [OF r] by simp
  finally show ?thesis .
qed

lemma matchIoCall_shorter:
  assumes "matchIoCall s = Some (g, rest)"
  shows "length rest < length s"
proof -
  from assms obtain r where r: "matchLiteral ''io'' s = Some r"
    and t: "matchCallTail r = Some (g, rest)"
    by (auto simp: matchIoCall_def split: option.splits)
  have "length rest < length r" using t by (rule matchCallTail_shorter)
  also have "\<dots> \<le> length s"
    using matchLiteral_shorter [OF r] by simp
  finally show ?thesis .
qed

lemma matchSocketConnect_shorter:
  assumes "matchSocketConnect s = Some (g, rest)"
  shows "length rest < length s"
proof -
  from assms obtain r where r: "matchLiteral ''socket.connect'' s = Some r"
    and t: "matchCallTail r = Some (g, rest)"
    by (auto simp: matchSocketConnect_def split: option.splits)
  have "length rest < length r" using t by (rule matchCallTail_shorter)
  also have "\<dots> \<le> length s"
    using matchLiteral_shorter [OF r] by simp
  finally show ?thesis .
qed

lemma withLength_bounds:
  assumes "withLength s m = Some (g, n)" and "\<And>g rest. m = Some (g, rest) \<Longrightarrow> length rest < length s"
  shows "0 < n \<and> n \<le> length s"
  using assms by (auto simp: withLength_def split: option.splits)

lemma matchHere_bounds:
  assumes "isGlobal p" and "matchHere p prev s = Some (g, n)"
  shows "0 < n \<and> n \<le> length s"
proof (cases p)
  case IdentifierPresence
  then show ?thesis using assms(1) by (simp add: isGlobal_def)
next
  case NewWebSocket
  then show ?thesis
    using assms(2) withLength_bounds [of s "matchNewWebSocket s" g n] matchNewWebSocket_shorter
    by simp
next
  case IoCall
  then show ?thesis
    using assms(2) withLength_bounds [of s "matchIoCall s" g n] matchIoCall_shorter
    by simp
next
  case SocketConnect
  then show ?thesis
    using assms(2) withLength_bounds [of s "matchSocketConnect s" g n] matchSocketConnect_shorter
    by simp
qed

lemma search_bounds:
  assumes "isGlobal p"
  shows "search p prev s i = Some (a, e, g) \<Longrightarrow> i < e \<and> e \<le> i + length s"
proof (induction s arbitrary: prev i)
  case Nil
  then show ?case
    using matchHere_bounds [OF assms, of prev "[]"] by (auto split: option.splits)
next
  case (Cons c cs)
  show ?case
  proof (cases "matchHere p prev (c # cs)")
    case None
    then have "search p (Some c) cs (Suc i) = Some (a, e, g)"
      using Cons.prems by simp
    from Cons.IH [OF this] show ?thesis by simp
  next
    case (Some r)
    obtain g' n where r: "r = (g', n)" by (cases r)
    have "0 < n \<and> n \<le> length (c # cs)"
      using matchHere_bounds [OF assms] Some r by blast
    moreover have "e = i + n"
      using Cons.prems Some r by simp
    ultimately show ?thesis by simp
  qed
qed

lemma exec_global_advances:
  assumes "isGlobal p" and "exec p c l = (Some g, l')"
  shows "l < l' \<and> l' \<le> length c"
proof -
  from assms obtain a where f: "findMatch p c l = Some (a, l', g)"
    by (auto simp: exec_def split: option.splits)
  then have le: "l \<le> length c"
    by (auto simp: findMatch_def split: if_splits)
  from f have "search p (if l = 0 then None else Some (c ! (l - 1))) (drop l c) l = Some (a, l', g)"
    using le by (simp add: findMatch_def)
  from search_bounds [OF assms(1) this] le show ?thesis by simp
qed

lemma whileExec_global_returns:
  assumes "isGlobal p"
  shows "\<exists>acc. whileExec p f c l a = Some (0, acc)"
proof (induction "Suc (length c) - l" arbitrary: l a rule: less_induct)
  case less
  show ?case
  proof (cases "exec p c l")
    case (Pair m l')
    show ?thesis
    proof (cases m)
      case None
      then have "l' = 0"
        using Pair assms by (auto simp: exec_def split: option.splits)
      then show ?thesis
        using Pair None by (subst whileExec.simps) simp
    next
      case (Some g)
      then have adv: "l < l' \<and> l' \<le> length c"
        using exec_global_advances [OF assms] Pair by blast
      then have "Suc (length c) - l' < Suc (length c) - l" by arith
      from less [OF this] obtain acc where
        "whileExec p f c l' (if g \<noteq> [] then a @ [\<lparr>impl_file = f, impl_url = Some g\<rparr>] else a)
           = Some (0, acc)"
        by blast
      then show ?thesis
        using Pair Some by (subst whileExec.simps) simp
    qed
  qed
qed

lemma whileExec_identifier_absent:
  assumes "\<not> identifierPresent c"
  shows "whileExec IdentifierPresence f c l a = Some (l, a)"
proof -
  have "findMatch IdentifierPresence c 0 = None"
    using assms unfolding identifierPresent_def by blast
  then have "exec IdentifierPresence c l = (None, l)"
    by (simp add: exec_def isGlobal_def)
  then show ?thesis
    by (subst whileExec.simps) simp
qed

lemma scanPatterns_global_returns:
  assumes "\<forall>p \<in> set ps. isGlobal p"
  shows "\<exists>st'. scanPatterns ps f c st = Some st'"
  using assms
proof (induction ps arbitrary: st)
  case Nil
  then show ?case by simp
next
  case (Cons p ps)
  then have g: "isGlobal p" by simp
  obtain acc where w: "whileExec p f c (lastIndexOf st p) (found st) = Some (0, acc)"
    using whileExec_global_returns [OF g] by blast
  have "\<exists>st'. scanPatterns ps f c (st\<lparr>lastIndexOf := (lastIndexOf st)(p := 0), found := acc\<rparr>) = Some st'"
    using Cons by simp
  then show ?case
    using w by (simp add: hasExec_def)
qed

lemma scanPatterns_returns:
  assumes "\<not> identifierPresent c"
  shows "\<exists>st'. scanPatterns socketPatterns f c st = Some st'"
proof -
  let ?st1 = "st\<lparr>lastIndexOf := (lastIndexOf st)(IdentifierPresence := lastIndexOf st IdentifierPresence),
                 found := found st\<rparr>"
  have "scanPatterns socketPatterns f c st
      = scanPatterns [NewWebSocket, IoCall, SocketConnect] f c ?st1"
    unfolding socketPatterns_def
    by (subst scanPatterns.simps) (simp add: hasExec_def whileExec_identifier_absent [OF assms])
  moreover have "\<exists>st'. scanPatterns [NewWebSocket, IoCall, SocketConnect] f c ?st1 = Some st'"
    by (rule scanPatterns_global_returns) (simp add: isGlobal_def)
  ultimately show ?thesis by simp
qed

lemma scanFiles_returns:
  assumes "\<forall>file \<in> set paths. \<forall>content. contents file = Some content \<longrightarrow> \<not> identifierPresent content"
  shows "\<exists>st'. scanFiles paths contents st = Some st'"
  using assms
proof (induction paths arbitrary: st)
  case Nil
  then show ?case by simp
next
  case (Cons f paths)
  show ?case
  proof (cases "contents f")
    case None
    then show ?thesis using Cons by simp
  next
    case (Some content)
    then have "\<not> identifierPresent content" using Cons.prems by simp
    then obtain st1 where "scanPatterns socketPatterns f content st = Some st1"
      using scanPatterns_returns by blast
    moreover have "\<exists>st'. scanFiles paths contents st1 = Some st'"
      using Cons by simp
    ultimately show ?thesis using Some by simp
  qed
qed

text \<open>
  The first pattern is the only cause: a global pattern moves \<open>lastIndex\<close> forward
  with every match, so its loop ends, and a scan in which no file matches the first
  pattern returns.
\<close>

lemma analyzeWebSockets_returns:
  assumes "\<forall>file \<in> set (findFiles appDir tree [''.js'', ''.ts'', ''.jsx'', ''.tsx'']).
             \<forall>content. contents file = Some content \<longrightarrow> \<not> identifierPresent content"
  shows "\<exists>info'. analyzeWebSockets appDir tree contents pick manual info = Some info'"
proof -
  obtain st where "scanFiles (findFiles appDir tree [''.js'', ''.ts'', ''.jsx'', ''.tsx'']) contents
             \<lparr>lastIndexOf = (\<lambda>p. 0), found = [], flagged = hasWebSockets info\<rparr> = Some st"
    using scanFiles_returns [OF assms] by blast
  then show ?thesis
    by (simp add: analyzeWebSockets_def)
qed

end
